theory Spec2Isabelle
  imports Main "HOL-Library.Sublist"
begin

section \<open>WhatsApp notification dispatch: a model of whatsapp\_notification.py\<close>

text \<open>
  The theory embeds the class \<open>WhatsAppNotification\<close> of
  \<^verbatim>\<open>frappe_whatsapp/doctype/whatsapp_notification/whatsapp_notification.py\<close>.
  Python values are a datatype, exceptions are values of a sum type, the database, the
  HTTP traffic and the user messages are fields of an explicit world that every method
  takes and returns, and the host framework (ORM look-ups, the expression evaluator, the
  HTTP client, the translation function) is a record of functions that each theorem
  quantifies over.
\<close>

subsection \<open>Python values and exceptions\<close>

text \<open>
  Strings are lists of characters, dictionaries are association lists read with
  \<open>map_of\<close> (first binding wins), a date is a day number and a datetime a day number
  with the microsecond of that day.
\<close>

datatype pyval =
    PNone
  | PBool bool
  | PInt int
  | PStr string
  | PDate int
  | PDatetime int nat
  | PList "pyval list"
  | PDict "(string \<times> pyval) list"

datatype exn =
    RequestException string
  | AttributeError string
  | KeyError string
  | TypeError string
  | IndexError string
  | ValidationError string
  | OtherError string

text \<open>\<open>str(e)\<close>; only \<open>RequestException\<close> is caught by the first handler of
  \<open>notify_evolution\<close>.\<close>

fun str_exn :: "exn \<Rightarrow> string" where
  "str_exn (RequestException m) = m"
| "str_exn (AttributeError m) = m"
| "str_exn (KeyError m) = m"
| "str_exn (TypeError m) = m"
| "str_exn (IndexError m) = m"
| "str_exn (ValidationError m) = m"
| "str_exn (OtherError m) = m"

fun is_request_exception :: "exn \<Rightarrow> bool" where
  "is_request_exception (RequestException m) = True"
| "is_request_exception e = False"

text \<open>Python truthiness, as \<open>if x:\<close> and \<open>x or y\<close> test it.\<close>

fun truthy :: "pyval \<Rightarrow> bool" where
  "truthy PNone = False"
| "truthy (PBool b) = b"
| "truthy (PInt i) = (i \<noteq> 0)"
| "truthy (PStr s) = (s \<noteq> [])"
| "truthy (PDate d) = True"
| "truthy (PDatetime d u) = True"
| "truthy (PList xs) = (xs \<noteq> [])"
| "truthy (PDict kvs) = (kvs \<noteq> [])"

fun type_name :: "pyval \<Rightarrow> string" where
  "type_name PNone = ''NoneType''"
| "type_name (PBool b) = ''bool''"
| "type_name (PInt i) = ''int''"
| "type_name (PStr s) = ''str''"
| "type_name (PDate d) = ''datetime.date''"
| "type_name (PDatetime d u) = ''datetime.datetime''"
| "type_name (PList xs) = ''list''"
| "type_name (PDict kvs) = ''dict''"

text \<open>A name between single quotes, as Python's messages print one.\<close>

definition quoted :: "string \<Rightarrow> string" where
  "quoted s = CHR 0x27 # s @ [CHR 0x27]"

definition no_attribute :: "pyval \<Rightarrow> string \<Rightarrow> exn" where
  "no_attribute v a =
     AttributeError (quoted (type_name v) @ '' object has no attribute '' @ quoted a)"

text \<open>\<open>d.get(k, default)\<close> on a dictionary held as an association list.\<close>

definition dict_get :: "(string \<times> pyval) list \<Rightarrow> string \<Rightarrow> pyval \<Rightarrow> pyval" where
  "dict_get kvs k dflt = (case map_of kvs k of None \<Rightarrow> dflt | Some v \<Rightarrow> v)"

text \<open>\<open>v.get(k, default)\<close> on any value: only a dictionary has the method.\<close>

definition py_get :: "pyval \<Rightarrow> string \<Rightarrow> pyval \<Rightarrow> exn + pyval" where
  "py_get v k dflt =
     (case v of
        PDict kvs \<Rightarrow> Inr (dict_get kvs k dflt)
      | _ \<Rightarrow> Inl (no_attribute v ''get''))"

text \<open>\<open>d[k]\<close> on a dictionary.\<close>

definition dict_item :: "(string \<times> pyval) list \<Rightarrow> string \<Rightarrow> exn + pyval" where
  "dict_item kvs k =
     (case map_of kvs k of
        None \<Rightarrow> Inl (KeyError (quoted k))
      | Some v \<Rightarrow> Inr v)"

text \<open>\<open>v[k]\<close> with a string key and \<open>v[0]\<close>, on any value.\<close>

definition py_item :: "pyval \<Rightarrow> string \<Rightarrow> exn + pyval" where
  "py_item v k =
     (case v of
        PDict kvs \<Rightarrow> dict_item kvs k
      | PList xs \<Rightarrow> Inl (TypeError ''list indices must be integers or slices, not str'')
      | PStr s \<Rightarrow> Inl (TypeError ''string indices must be integers'')
      | _ \<Rightarrow> Inl (TypeError (quoted (type_name v) @ '' object is not subscriptable'')))"

definition py_first :: "pyval \<Rightarrow> exn + pyval" where
  "py_first v =
     (case v of
        PDict kvs \<Rightarrow> Inl (KeyError ''0'')
      | PList xs \<Rightarrow>
          (case xs of [] \<Rightarrow> Inl (IndexError ''list index out of range'') | x # _ \<Rightarrow> Inr x)
      | PStr s \<Rightarrow>
          (case s of [] \<Rightarrow> Inl (IndexError ''string index out of range'') | c # _ \<Rightarrow> Inr (PStr [c]))
      | _ \<Rightarrow> Inl (TypeError (quoted (type_name v) @ '' object is not subscriptable'')))"

text \<open>The elements a \<open>for\<close> loop or a comprehension draws from a value.\<close>

definition py_iter :: "pyval \<Rightarrow> exn + pyval list" where
  "py_iter v =
     (case v of
        PList xs \<Rightarrow> Inr xs
      | PDict kvs \<Rightarrow> Inr (map (\<lambda>kv. PStr (fst kv)) kvs)
      | PStr s \<Rightarrow> Inr (map (\<lambda>c. PStr [c]) s)
      | _ \<Rightarrow> Inl (TypeError (quoted (type_name v) @ '' object is not iterable'')))"

text \<open>Sequencing of a computation that may raise.\<close>

definition bind_exn :: "exn + 'a \<Rightarrow> ('a \<Rightarrow> exn + 'b) \<Rightarrow> exn + 'b" where
  "bind_exn m f = (case m of Inl e \<Rightarrow> Inl e | Inr x \<Rightarrow> f x)"

fun map_exn :: "('a \<Rightarrow> exn + 'b) \<Rightarrow> 'a list \<Rightarrow> exn + 'b list" where
  "map_exn f [] = Inr []"
| "map_exn f (x # xs) =
     (case f x of
        Inl e \<Rightarrow> Inl e
      | Inr y \<Rightarrow> (case map_exn f xs of Inl e \<Rightarrow> Inl e | Inr ys \<Rightarrow> Inr (y # ys)))"

subsection \<open>Strings\<close>

text \<open>Decimal numerals, as the f-string \<open>f"{i}"\<close> prints a non-negative \<open>int\<close>.\<close>

definition digit_chr :: "nat \<Rightarrow> char" where
  "digit_chr d = ''0123456789'' ! d"

function str_nat :: "nat \<Rightarrow> string" where
  "str_nat n = (if n < 10 then [digit_chr n] else str_nat (n div 10) @ [digit_chr (n mod 10)])"
  by pat_completeness auto
termination
  by (relation "measure id") auto

declare str_nat.simps [simp del]

definition str_int :: "int \<Rightarrow> string" where
  "str_int i = (if i < 0 then CHR ''-'' # str_nat (nat (- i)) else str_nat (nat i))"

text \<open>
  \<open>s.replace(old, new)\<close>: every occurrence of \<open>old\<close>, found from the left and not
  overlapping the one before, is replaced. With an empty \<open>old\<close> Python puts \<open>new\<close>
  before every character and at the end.
\<close>

function str_replace :: "string \<Rightarrow> string \<Rightarrow> string \<Rightarrow> string" where
  "str_replace old new [] = (if old = [] then new else [])"
| "str_replace old new (c # cs) =
     (if old = [] then new @ c # str_replace old new cs
      else if prefix old (c # cs) then new @ str_replace old new (drop (length old) (c # cs))
      else c # str_replace old new cs)"
  by pat_completeness auto
termination
  by (relation "measure (\<lambda>(old, new, s). length s)") auto

text \<open>\<open>s.lower()\<close> on the ASCII letters; every other character is kept.\<close>

definition lower_chr :: "char \<Rightarrow> char" where
  "lower_chr c =
     (case map_of (zip ''ABCDEFGHIJKLMNOPQRSTUVWXYZ'' ''abcdefghijklmnopqrstuvwxyz'') c of
        None \<Rightarrow> c
      | Some l \<Rightarrow> l)"

definition str_lower :: "string \<Rightarrow> string" where
  "str_lower s = map lower_chr s"

text \<open>\<open>s.startswith(p)\<close> is \<open>prefix p s\<close>, \<open>s.endswith(p)\<close> is \<open>suffix p s\<close> and
  \<open>p in s\<close> is \<open>sublist p s\<close>.\<close>

subsection \<open>The phone formatter (\<open>format_number\<close>, lines 453 to 458)\<close>

definition format_number :: "string \<Rightarrow> string" where
  "format_number number =
     (if prefix ''+'' number then drop 1 (take (length number) number) else number)"

subsection \<open>The rule, the triggering record, the host and the world\<close>

text \<open>The fields of a WhatsApp Notification document that the methods read. An unset text
  field is the empty string where the code only tests it for truth, and \<open>None\<close> where
  the code tells the two apart. The child table \<open>self.fields\<close> is \<open>param_fields\<close>, the
  list of its rows' \<open>field_name\<close>.\<close>

record rule =
  disabled :: bool
  condition :: string
  field_name :: string
  template :: string
  code :: "string option"
  param_fields :: "string list"
  attach_document_print :: bool
  custom_attachment :: bool
  file_name :: "string option"
  attach_from_field :: string
  attach :: "string option"
  sender_number :: string
  set_property_after_alert :: string
  property_value :: string
  content_type :: string
  reference_doctype :: string
  date_changed :: string
  days_in_advance :: int
  doctype_event :: string

text \<open>The triggering record: \<open>doc.as_dict()\<close>, \<open>doc.get_formatted\<close>, the share key, and
  whether \<open>isinstance(doc, Document)\<close> holds.\<close>

record document =
  is_document :: bool
  doc_dict :: "(string \<times> pyval) list"
  get_formatted :: "string \<Rightarrow> pyval"
  document_share_key :: string

record evolution_settings =
  base_url :: string
  instance_name :: string
  global_api_key :: string

record whatsapp_settings =
  settings_url :: string
  settings_version :: string
  settings_phone_id :: string
  settings_token :: string

text \<open>What \<open>requests.post\<close> followed by \<open>response.json()\<close> can give: the call raises, or
  there is a response with a status code whose body decodes to a value or fails to
  decode.\<close>

datatype http_result =
    PostFailed exn
  | Response nat "exn + pyval"

text \<open>
  What \<open>make_post_request\<close> of the host can give, with the state it leaves in
  \<open>frappe.flags.integration_request\<close>. It raises (for a status of 400 and above too), and
  the flag is then falsy (\<open>None\<close>) or an earlier response whose \<open>json()\<close> gives or
  raises; or it returns the decoded JSON body, the text of the body, the query-string
  dictionary of a plain-text body, or nothing, and the flag is the response, whose
  \<open>json()\<close> gives the body in the first case and raises in the others.
\<close>

datatype post_outcome =
    PostRaised exn "(exn + pyval) option"
  | PostJson pyval
  | PostText string
  | PostQs "(string \<times> string list) list"
  | PostEmpty

text \<open>The host framework and the outside world, as far as the methods call them.\<close>

record host =
  translate :: "string \<Rightarrow> string option \<Rightarrow> string"
  host_str :: "pyval \<Rightarrow> string"
  json_dumps :: "pyval \<Rightarrow> string"
  safe_eval :: "string \<Rightarrow> (string \<times> pyval) list \<Rightarrow> exn + pyval"
  get_template :: "string \<Rightarrow> pyval"
  get_evolution_settings :: "string \<Rightarrow> evolution_settings"
  requests_post :: "string \<Rightarrow> pyval \<Rightarrow> pyval \<Rightarrow> http_result"
  get_meta_field :: "pyval \<Rightarrow> string \<Rightarrow> string option"
  numeric_fieldtypes :: "string list"
  cint :: "string \<Rightarrow> int"
  get_doctype :: "pyval \<Rightarrow> bool \<times> string"
  get_property_setter :: "pyval \<Rightarrow> string"
  attach_print :: "pyval \<Rightarrow> pyval \<Rightarrow> string \<Rightarrow> document \<Rightarrow> exn + string \<times> string"
  get_url :: string
  get_whatsapp_settings :: whatsapp_settings
  make_post_request :: "string \<Rightarrow> pyval \<Rightarrow> string \<Rightarrow> post_outcome"
  nowdate :: int
  get_all_docs :: "string \<Rightarrow> document list"

text \<open>
  The effects of the methods: the documents saved with \<open>frappe.get_doc(...).save()\<close> or
  \<open>.insert()\<close>, the direct writes \<open>frappe.db.set_value(doctype, name, field, value)\<close>,
  the HTTP requests made (URL, headers, body), the messages shown with
  \<open>frappe.msgprint\<close>, and the condition expressions handed to the evaluator. The
  persistence calls of the host are taken to succeed.
\<close>

record world =
  documents :: "pyval list"
  db_set_values :: "(pyval \<times> pyval \<times> string \<times> pyval) list"
  http_posts :: "(string \<times> pyval \<times> pyval) list"
  msgprints :: "string list"
  conditions_evaluated :: "string list"

definition is_doctype :: "string \<Rightarrow> pyval \<Rightarrow> bool" where
  "is_doctype name d =
     (case d of PDict kvs \<Rightarrow> map_of kvs ''doctype'' = Some (PStr name) | _ \<Rightarrow> False)"

text \<open>The Sent Message Records and the Notification Log entries of a world.\<close>

definition sent_messages :: "world \<Rightarrow> pyval list" where
  "sent_messages w = filter (is_doctype ''WhatsApp Message'') (documents w)"

definition notification_logs :: "world \<Rightarrow> pyval list" where
  "notification_logs w = filter (is_doctype ''WhatsApp Notification Log'') (documents w)"

definition save_doc :: "pyval \<Rightarrow> world \<Rightarrow> world" where
  "save_doc d w = w\<lparr>documents := documents w @ [d]\<rparr>"

definition msgprint :: "string \<Rightarrow> world \<Rightarrow> world" where
  "msgprint m w = w\<lparr>msgprints := msgprints w @ [m]\<rparr>"

definition opt_str :: "string option \<Rightarrow> pyval" where
  "opt_str s = (case s of None \<Rightarrow> PNone | Some t \<Rightarrow> PStr t)"

text \<open>\<open>str(v)\<close>: Python's own for the scalars, the host's for dates and containers.\<close>

definition py_str :: "host \<Rightarrow> pyval \<Rightarrow> string" where
  "py_str h v =
     (case v of
        PStr s \<Rightarrow> s
      | PNone \<Rightarrow> ''None''
      | PBool b \<Rightarrow> (if b then ''True'' else ''False'')
      | PInt i \<Rightarrow> str_int i
      | _ \<Rightarrow> host_str h v)"

subsection \<open>The template renderer (\<open>send_template_message\<close>, lines 128 to 144)\<close>

text \<open>The placeholder \<open>f"{{{{{i}}}}}"\<close>, that is \<open>{{i}}\<close>.\<close>

definition placeholder :: "nat \<Rightarrow> string" where
  "placeholder i = ''{{'' @ str_nat i @ ''}}''"

text \<open>The text that takes a placeholder's place: \<open>_(str(param), 'ar')\<close>.\<close>

definition localized :: "host \<Rightarrow> pyval \<Rightarrow> string" where
  "localized h param = translate h (py_str h param) (Some ''ar'')"

text \<open>The loop \<open>for i, param in enumerate(parameters, 1)\<close>, from index \<open>i\<close> on.\<close>

fun replace_parameters :: "host \<Rightarrow> nat \<Rightarrow> pyval list \<Rightarrow> string \<Rightarrow> string" where
  "replace_parameters h i [] message_text = message_text"
| "replace_parameters h i (param # rest) message_text =
     replace_parameters h (Suc i) rest
       (str_replace (placeholder i) (localized h param) message_text)"

text \<open>One entry of \<open>parameters\<close> (lines 134 to 140).\<close>

definition field_value :: "host \<Rightarrow> document \<Rightarrow> string \<Rightarrow> exn + pyval" where
  "field_value h doc fname =
     (if is_document doc then Inr (get_formatted doc fname)
      else
        (case dict_item (doc_dict doc) fname of
           Inl e \<Rightarrow> Inl e
         | Inr v \<Rightarrow>
             (case v of
                PDate d \<Rightarrow> Inr (PStr (host_str h v))
              | PDatetime d u \<Rightarrow> Inr (PStr (host_str h v))
              | _ \<Rightarrow> Inr v)))"

text \<open>Lines 128 to 144: the body \<open>self.code\<close> with the parameters filled in. A rule
  without a body is \<open>None\<close>, on which \<open>.replace\<close> raises.\<close>

definition render_message :: "host \<Rightarrow> rule \<Rightarrow> pyval list \<Rightarrow> exn + string option" where
  "render_message h self parameters =
     (if param_fields self = [] \<or> parameters = [] then Inr (code self)
      else
        (case code self of
           None \<Rightarrow> Inl (no_attribute PNone ''replace'')
         | Some message_text \<Rightarrow> Inr (Some (replace_parameters h 1 parameters message_text))))"

subsection \<open>The attachment resolver (\<open>send_template_message\<close>, lines 146 to 207)\<close>

definition print_format_for :: "host \<Rightarrow> pyval \<Rightarrow> string" where
  "print_format_for h dt =
     (case get_doctype h dt of
        (custom, default_print_format) \<Rightarrow>
          if custom then
            (if default_print_format \<noteq> [] then default_print_format else ''Standard'')
          else
            (if get_property_setter h dt \<noteq> [] then get_property_setter h dt
             else ''Standard''))"

text \<open>The handler of lines 182 to 191: a network error becomes a configuration hint,
  every other error is raised again.\<close>

definition pdf_error :: "host \<Rightarrow> exn \<Rightarrow> exn" where
  "pdf_error h e =
     (let error_msg = str_exn e in
      if sublist ''HostNotFoundError'' error_msg \<or> sublist ''network error'' (str_lower error_msg)
      then ValidationError (translate h
        ''PDF generation failed due to network error. Please ensure your site URL is properly configured in site_config.json (set 'host_name') or use a publicly accessible URL instead of localhost.''
        None)
      else e)"

text \<open>The result is \<open>(attachment_url, filename)\<close>.\<close>

definition resolve_attachment ::
  "host \<Rightarrow> rule \<Rightarrow> document \<Rightarrow> exn + string option \<times> string option" where
  "resolve_attachment h self doc =
     (let doc_data = doc_dict doc in
      if attach_document_print self then
        (case dict_item doc_data ''doctype'' of
           Inl e \<Rightarrow> Inl e
         | Inr dt \<Rightarrow>
             (let print_format = print_format_for h dt in
              case dict_item doc_data ''name'' of
                Inl e \<Rightarrow> Inl (pdf_error h e)
              | Inr nm \<Rightarrow>
                  (case attach_print h dt nm print_format doc of
                     Inl e \<Rightarrow> Inl (pdf_error h e)
                   | Inr (fname, pdf_base64) \<Rightarrow> Inr (Some pdf_base64, Some fname))))
      else if custom_attachment self then
        (let filename = file_name self;
             file_url =
               (if attach_from_field self \<noteq> [] then
                  (case dict_item doc_data (attach_from_field self) of
                     Inl e \<Rightarrow> Inl e
                   | Inr v \<Rightarrow>
                       (case v of
                          PStr u \<Rightarrow>
                            if \<not> prefix ''http'' u then
                              (if is_document doc
                               then Inr (PStr (get_url h @ u @ ''&key='' @ document_share_key doc))
                               else Inl (no_attribute (PDict doc_data) ''get_document_share_key''))
                            else Inr v
                        | _ \<Rightarrow> Inl (no_attribute v ''startswith'')))
                else Inr (opt_str (attach self)))
         in case file_url of
              Inl e \<Rightarrow> Inl e
            | Inr v \<Rightarrow>
                (case v of
                   PStr u \<Rightarrow>
                     if prefix ''http'' u then Inr (Some u, filename)
                     else Inr (Some (get_url h @ u), filename)
                 | _ \<Rightarrow> Inl (no_attribute v ''startswith'')))
      else Inr (None, None))"

subsection \<open>Backend B: \<open>notify_evolution\<close> (lines 220 to 361)\<close>

text \<open>Lines 240 to 273: the URL, the payload, the content type and the message text
  (which the text branch replaces when it is \<open>None\<close>).\<close>

definition evolution_request ::
  "evolution_settings \<Rightarrow> string \<Rightarrow> string option \<Rightarrow> string option \<Rightarrow> string option
     \<Rightarrow> string \<times> pyval \<times> string \<times> string option" where
  "evolution_request settings phone_number message_text attachment_url filename =
     (if truthy (opt_str attachment_url) then
        (if (case filename of None \<Rightarrow> False
             | Some f \<Rightarrow> f \<noteq> [] \<and> suffix ''.pdf'' (str_lower f)) then
           (base_url settings @ ''/message/sendMedia/'' @ instance_name settings,
            PDict [(''number'', PStr phone_number),
                   (''mediatype'', PStr ''document''),
                   (''mimetype'', PStr ''application/pdf''),
                   (''caption'', opt_str message_text),
                   (''media'', opt_str attachment_url),
                   (''fileName'', opt_str filename)],
            ''document'', message_text)
         else
           (base_url settings @ ''/message/sendMedia/'' @ instance_name settings,
            PDict [(''number'', PStr phone_number),
                   (''mediatype'', PStr ''image''),
                   (''caption'', opt_str message_text),
                   (''media'', opt_str attachment_url)],
            ''image'', message_text))
      else
        (let message_text = (case message_text of None \<Rightarrow> Some ''No Text'' | Some t \<Rightarrow> Some t) in
         (base_url settings @ ''/message/sendText/'' @ instance_name settings,
          PDict [(''number'', PStr phone_number), (''text'', opt_str message_text)],
          ''text'', message_text)))"

text \<open>Lines 283 to 285: \<open>key.id\<close>, and \<open>message.key.id\<close> when that is empty.\<close>

definition extract_message_id :: "pyval \<Rightarrow> exn + pyval" where
  "extract_message_id response_data =
     bind_exn (py_get response_data ''key'' (PDict [])) (\<lambda>k.
     bind_exn (py_get k ''id'' (PStr [])) (\<lambda>message_id.
       if \<not> truthy message_id then
         bind_exn (py_get response_data ''message'' (PDict [])) (\<lambda>m.
         bind_exn (py_get m ''key'' (PDict [])) (\<lambda>k2.
         py_get k2 ''id'' (PStr [])))
       else Inr message_id))"

text \<open>Line 328: \<open>response.message\<close>, or \<open>"Unknown Error"\<close>.\<close>

definition extract_error_message :: "pyval \<Rightarrow> exn + pyval" where
  "extract_error_message response_data =
     bind_exn (py_get response_data ''response'' (PDict [])) (\<lambda>r.
     py_get r ''message'' (PStr ''Unknown Error''))"

text \<open>Lines 288 to 305: the WhatsApp Message document. The two reference keys are new to
  the dictionary, so \<open>update\<close> appends them.\<close>

definition evolution_message_doc ::
  "host \<Rightarrow> rule \<Rightarrow> string \<Rightarrow> string option \<Rightarrow> pyval \<Rightarrow> string \<Rightarrow> pyval
     \<Rightarrow> (string \<times> pyval) list option \<Rightarrow> pyval" where
  "evolution_message_doc h self phone_number message_text message_id content_type' parameters doc_data =
     PDict ([(''doctype'', PStr ''WhatsApp Message''),
             (''type'', PStr ''Outgoing''),
             (''message'', opt_str message_text),
             (''to'', PStr phone_number),
             (''message_type'', PStr ''Template''),
             (''message_id'', message_id),
             (''content_type'', PStr content_type'),
             (''use_template'', PInt 1),
             (''template'', PStr (template self)),
             (''template_parameters'',
                if truthy parameters then PStr (json_dumps h parameters) else PNone)]
            @ (case doc_data of
                 None \<Rightarrow> []
               | Some dd \<Rightarrow>
                   if dd \<noteq> [] then
                     [(''reference_doctype'', dict_get dd ''doctype'' PNone),
                      (''reference_name'', dict_get dd ''name'' PNone)]
                   else []))"

text \<open>The write-back, lines 310 to 324 of \<open>notify_evolution\<close> and again lines 410 to 420
  of \<open>notify\<close>: \<open>df\<close> is the field of the triggering record's schema, known to the host
  by its field type.\<close>

definition write_back :: "host \<Rightarrow> rule \<Rightarrow> (string \<times> pyval) list option \<Rightarrow> world \<Rightarrow> world" where
  "write_back h self doc_data w =
     (case doc_data of
        None \<Rightarrow> w
      | Some dd \<Rightarrow>
          if dd \<noteq> [] \<and> set_property_after_alert self \<noteq> [] \<and> property_value self \<noteq> [] then
            (if truthy (dict_get dd ''doctype'' PNone) \<and> truthy (dict_get dd ''name'' PNone) then
               (let fieldname = set_property_after_alert self;
                    val = property_value self
                in case get_meta_field h (dict_get dd ''doctype'' PNone) fieldname of
                     None \<Rightarrow> w
                   | Some fieldtype \<Rightarrow>
                       (let val' = (if fieldtype \<in> set (numeric_fieldtypes h)
                                    then PInt (cint h val) else PStr val)
                        in w\<lparr>db_set_values := db_set_values w @
                              [(dict_get dd ''doctype'' PNone, dict_get dd ''name'' PNone,
                                fieldname, val')]\<rparr>))
             else w)
          else w)"

text \<open>The two handlers of lines 335 to 348, with the values of \<open>success\<close> and
  \<open>response_data\<close> at the time of the raise. The result is
  \<open>(success, response_data, error_message)\<close> and the world.\<close>

definition evolution_except ::
  "bool \<Rightarrow> pyval \<Rightarrow> exn \<Rightarrow> world \<Rightarrow> (bool \<times> pyval \<times> pyval) \<times> world" where
  "evolution_except success response_data e w =
     (let error_message =
            (if is_request_exception e then ''Connection error: '' @ str_exn e else str_exn e)
      in ((success, response_data, PStr error_message),
          msgprint (''Failed to trigger WhatsApp message: '' @ error_message) w))"

text \<open>The \<open>try\<close> block, lines 238 to 333, with its handlers.\<close>

definition evolution_try ::
  "host \<Rightarrow> rule \<Rightarrow> string \<Rightarrow> pyval \<Rightarrow> string \<Rightarrow> pyval \<Rightarrow> string \<Rightarrow> string option
     \<Rightarrow> (string \<times> pyval) list option \<Rightarrow> pyval \<Rightarrow> world
     \<Rightarrow> (bool \<times> pyval \<times> pyval) \<times> world" where
  "evolution_try h self url headers phone_number payload content_type' message_text doc_data parameters w =
     (let w1 = w\<lparr>http_posts := http_posts w @ [(url, headers, payload)]\<rparr> in
      case requests_post h url headers payload of
        PostFailed e \<Rightarrow> evolution_except False PNone e w1
      | Response status_code body \<Rightarrow>
          (case body of
             Inl e \<Rightarrow> evolution_except False PNone e w1
           | Inr response_data \<Rightarrow>
               if status_code = 200 \<or> status_code = 201 then
                 (case extract_message_id response_data of
                    Inl e \<Rightarrow> evolution_except True response_data e w1
                  | Inr message_id \<Rightarrow>
                      (let new_doc = evolution_message_doc h self phone_number message_text
                                       message_id content_type' parameters doc_data;
                           w2 = save_doc new_doc w1;
                           w3 = write_back h self doc_data w2
                       in ((True, response_data, PNone),
                           msgprint ''WhatsApp Message Sent Successfully'' w3)))
               else
                 (case extract_error_message response_data of
                    Inl e \<Rightarrow> evolution_except False response_data e w1
                  | Inr error_message \<Rightarrow>
                      ((False, response_data, error_message),
                       msgprint (''Failed to send WhatsApp message: '' @ py_str h error_message)
                         w1))))"

text \<open>The document written by the \<open>finally\<close> block, lines 351 to 361.\<close>

definition evolution_log_doc ::
  "rule \<Rightarrow> bool \<Rightarrow> pyval \<Rightarrow> pyval \<Rightarrow> string \<Rightarrow> string option \<Rightarrow> pyval" where
  "evolution_log_doc self success response_data error_message phone_number message_text =
     PDict [(''doctype'', PStr ''WhatsApp Notification Log''),
            (''template'', PStr (template self)),
            (''meta_data'',
               PDict [(''success'', PBool success),
                      (''response'', if success then response_data else PNone),
                      (''error'', if \<not> success then error_message else PNone),
                      (''phone_number'', PStr phone_number),
                      (''message'', opt_str message_text)])]"

text \<open>The method. The result is the exception that leaves it, if one does, and the
  world.\<close>

definition notify_evolution ::
  "host \<Rightarrow> rule \<Rightarrow> string \<Rightarrow> string option \<Rightarrow> string option \<Rightarrow> string option \<Rightarrow> pyval
     \<Rightarrow> (string \<times> pyval) list option \<Rightarrow> pyval \<Rightarrow> world \<Rightarrow> exn option \<times> world" where
  "notify_evolution h self phone_number message_text attachment_url filename template' doc_data
       parameters w =
     (let settings = get_evolution_settings h (sender_number self) in
      if base_url settings = [] \<or> instance_name settings = [] then
        (Some (ValidationError ''Evolution Phone Settings not configured''), w)
      else
        (let headers = PDict [(''Content-Type'', PStr ''application/json''),
                              (''apikey'', PStr (global_api_key settings))]
         in case evolution_request settings phone_number message_text attachment_url filename of
              (url, payload, content_type', message_text') \<Rightarrow>
                (case evolution_try h self url headers phone_number payload content_type'
                        message_text' doc_data parameters w of
                   ((success, response_data, error_message), w') \<Rightarrow>
                     (None,
                      save_doc (evolution_log_doc self success response_data error_message
                                  phone_number message_text') w'))))"

subsection \<open>The send pipeline: \<open>send_template_message\<close> (lines 91 to 218)\<close>

text \<open>Lines 97 to 102. The result is whether to go on, or the exception of the
  evaluator; an evaluation is recorded in the world.\<close>

definition check_condition ::
  "host \<Rightarrow> rule \<Rightarrow> (string \<times> pyval) list \<Rightarrow> bool \<Rightarrow> world \<Rightarrow> (exn + bool) \<times> world" where
  "check_condition h self doc_data ignore_condition w =
     (if condition self \<noteq> [] \<and> \<not> ignore_condition then
        (let w1 = w\<lparr>conditions_evaluated := conditions_evaluated w @ [condition self]\<rparr> in
         case safe_eval h (condition self) doc_data of
           Inl e \<Rightarrow> (Inl e, w1)
         | Inr v \<Rightarrow> (Inr (truthy v), w1))
      else (Inr True, w))"

text \<open>Lines 104 to 114: the recipient, formatted.\<close>

definition resolve_phone ::
  "rule \<Rightarrow> string option \<Rightarrow> (string \<times> pyval) list \<Rightarrow> exn + string" where
  "resolve_phone self phone_no doc_data =
     bind_exn
       (if field_name self \<noteq> [] then
          (if truthy (opt_str phone_no) then Inr (opt_str phone_no)
           else dict_item doc_data (field_name self))
        else Inr (opt_str phone_no))
       (\<lambda>phone_number.
          if \<not> truthy phone_number then Inl (ValidationError ''Phone number not found'')
          else
            (case phone_number of
               PStr n \<Rightarrow> Inr (format_number n)
             | _ \<Rightarrow> Inl (no_attribute phone_number ''startswith'')))"

definition send_template_message ::
  "host \<Rightarrow> rule \<Rightarrow> document \<Rightarrow> string option \<Rightarrow> pyval \<Rightarrow> bool \<Rightarrow> world \<Rightarrow> exn option \<times> world" where
  "send_template_message h self doc phone_no default_template ignore_condition w =
     (if disabled self then (None, w)
      else
        (let doc_data = doc_dict doc in
         case check_condition h self doc_data ignore_condition w of
           (Inl e, w1) \<Rightarrow> (Some e, w1)
         | (Inr go_on, w1) \<Rightarrow>
             if \<not> go_on then (None, w1)
             else
               (case resolve_phone self phone_no doc_data of
                  Inl e \<Rightarrow> (Some e, w1)
                | Inr phone_number \<Rightarrow>
                    (let template' = (if truthy default_template then default_template
                                      else get_template h (template self))
                     in if \<not> truthy template' then
                          (Some (ValidationError (''Template '' @ template self @ '' not found'')), w1)
                        else
                          (case map_exn (field_value h doc) (param_fields self) of
                             Inl e \<Rightarrow> (Some e, w1)
                           | Inr parameters \<Rightarrow>
                               (case render_message h self parameters of
                                  Inl e \<Rightarrow> (Some e, w1)
                                | Inr message_text \<Rightarrow>
                                    (case resolve_attachment h self doc of
                                       Inl e \<Rightarrow> (Some e, w1)
                                     | Inr (attachment_url, filename) \<Rightarrow>
                                         notify_evolution h self phone_number message_text
                                           attachment_url filename template' (Some doc_data)
                                           (if param_fields self \<noteq> [] then PList parameters
                                            else PNone)
                                           w1)))))))"

subsection \<open>Backend A: \<open>notify\<close> (lines 363 to 445)\<close>

text \<open>What \<open>make_post_request\<close> returned, and \<open>frappe.flags.integration_request\<close> after the
  call: \<open>None\<close> when it is falsy, else the result of its \<open>json()\<close>.\<close>

fun returned_value :: "post_outcome \<Rightarrow> exn + pyval" where
  "returned_value (PostRaised e ir) = Inl e"
| "returned_value (PostJson j) = Inr j"
| "returned_value (PostText t) = Inr (PStr t)"
| "returned_value (PostQs kvs) = Inr (PDict (map (\<lambda>kv. (fst kv, PList (map PStr (snd kv)))) kvs))"
| "returned_value PostEmpty = Inr PNone"

fun integration_request :: "post_outcome \<Rightarrow> (exn + pyval) option" where
  "integration_request (PostRaised e ir) = ir"
| "integration_request (PostJson j) = Some (Inr j)"
| "integration_request (PostText t) = Some (Inl (OtherError ''Expecting value''))"
| "integration_request (PostQs kvs) = Some (Inl (OtherError ''Expecting value''))"
| "integration_request PostEmpty = Some (Inl (OtherError ''Expecting value''))"

text \<open>Lines 384 to 387: the texts of the first component's parameters, serialised.\<close>

definition template_parameters :: "host \<Rightarrow> pyval \<Rightarrow> exn + pyval" where
  "template_parameters h data =
     bind_exn (py_item data ''template'') (\<lambda>t.
     bind_exn (py_item t ''components'') (\<lambda>components.
       if truthy components then
         bind_exn (py_first components) (\<lambda>c0.
         bind_exn (py_item c0 ''parameters'') (\<lambda>ps.
         bind_exn (py_iter ps) (\<lambda>params.
         bind_exn (map_exn (\<lambda>param. py_item param ''text'') params) (\<lambda>texts.
         Inr (PStr (json_dumps h (PList texts)))))))
       else Inr PNone))"

text \<open>Lines 389 to 406: the WhatsApp Message document of Backend A. Lines 381 and 382 set
  \<open>self.content_type\<close> to \<open>'text'\<close> when it is empty; the document gets that value, and
  the rule itself is not part of the world.\<close>

definition notify_message_doc ::
  "host \<Rightarrow> rule \<Rightarrow> pyval \<Rightarrow> pyval \<Rightarrow> pyval \<Rightarrow> (string \<times> pyval) list option \<Rightarrow> exn + pyval" where
  "notify_message_doc h self data response parameters doc_data =
     bind_exn (py_item data ''template'') (\<lambda>t.
     bind_exn (py_item data ''to'') (\<lambda>to.
     bind_exn (py_item response ''messages'') (\<lambda>ms.
     bind_exn (py_first ms) (\<lambda>m0.
     bind_exn (py_item m0 ''id'') (\<lambda>message_id.
     Inr (PDict ([(''doctype'', PStr ''WhatsApp Message''),
                  (''type'', PStr ''Outgoing''),
                  (''message'', PStr (py_str h t)),
                  (''to'', to),
                  (''message_type'', PStr ''Template''),
                  (''message_id'', message_id),
                  (''content_type'',
                     PStr (if content_type self = [] then ''text'' else content_type self)),
                  (''use_template'', PInt 1),
                  (''template'', PStr (template self)),
                  (''template_parameters'', parameters)]
                 @ (case doc_data of
                      None \<Rightarrow> []
                    | Some dd \<Rightarrow>
                        if dd \<noteq> [] then
                          [(''reference_doctype'', dict_get dd ''doctype'' PNone),
                           (''reference_name'', dict_get dd ''name'' PNone)]
                        else []))))))))"

text \<open>The \<open>try\<close> block, lines 375 to 423: it ends normally, with \<open>success\<close> set, or with
  the exception that the handler receives.\<close>

definition notify_try ::
  "host \<Rightarrow> rule \<Rightarrow> pyval \<Rightarrow> (string \<times> pyval) list option \<Rightarrow> post_outcome \<Rightarrow> world
     \<Rightarrow> exn option \<times> world" where
  "notify_try h self data doc_data outcome w =
     (case returned_value outcome of
        Inl e \<Rightarrow> (Some e, w)
      | Inr response \<Rightarrow>
          (case template_parameters h data of
             Inl e \<Rightarrow> (Some e, w)
           | Inr parameters \<Rightarrow>
               (case notify_message_doc h self data response parameters doc_data of
                  Inl e \<Rightarrow> (Some e, w)
                | Inr new_doc \<Rightarrow>
                    (None,
                     msgprint ''WhatsApp Message Triggered''
                       (write_back h self doc_data (save_doc new_doc w))))))"

text \<open>The handler, lines 425 to 435: the error message, or the exception that the
  handler itself raises while it reads the error out of the last response.\<close>

definition notify_except :: "host \<Rightarrow> post_outcome \<Rightarrow> exn \<Rightarrow> world \<Rightarrow> pyval \<times> exn option \<times> world" where
  "notify_except h outcome e w =
     (let error_message = PStr (str_exn e) in
      case integration_request outcome of
        None \<Rightarrow>
          (error_message, None,
           msgprint (''Failed to trigger whatsapp message: '' @ py_str h error_message) w)
      | Some js \<Rightarrow>
          (case bind_exn js (\<lambda>j. bind_exn (py_item j ''error'') (\<lambda>response.
                  bind_exn (py_get response ''message'' PNone) (\<lambda>dflt.
                  py_get response ''Error'' dflt))) of
             Inl e' \<Rightarrow> (error_message, Some e', w)
           | Inr error_message' \<Rightarrow>
               (error_message', None,
                msgprint (''Failed to trigger whatsapp message: '' @ py_str h error_message') w)))"

definition notify_log_doc :: "rule \<Rightarrow> pyval \<Rightarrow> pyval" where
  "notify_log_doc self meta =
     PDict [(''doctype'', PStr ''WhatsApp Notification Log''),
            (''template'', PStr (template self)),
            (''meta_data'', meta)]"

text \<open>The method with its \<open>finally\<close> block, lines 436 to 445. On success the block reads
  \<open>frappe.flags.integration_request.json()\<close>, which can raise before the log is
  written.\<close>

definition notify ::
  "host \<Rightarrow> rule \<Rightarrow> pyval \<Rightarrow> (string \<times> pyval) list option \<Rightarrow> world \<Rightarrow> exn option \<times> world" where
  "notify h self data doc_data w =
     (let settings = get_whatsapp_settings h;
          headers = PDict [(''authorization'', PStr (''Bearer '' @ settings_token settings)),
                           (''content-type'', PStr ''application/json'')];
          url = settings_url settings @ ''/'' @ settings_version settings @ ''/''
                  @ settings_phone_id settings @ ''/messages'';
          body = json_dumps h data;
          outcome = make_post_request h url headers body;
          w1 = w\<lparr>http_posts := http_posts w @ [(url, headers, PStr body)]\<rparr>
      in case notify_try h self data doc_data outcome w1 of
           (None, w2) \<Rightarrow>
             (case integration_request outcome of
                None \<Rightarrow> (Some (no_attribute PNone ''json''), w2)
              | Some js \<Rightarrow>
                  (case js of
                     Inl e \<Rightarrow> (Some e, w2)
                   | Inr meta \<Rightarrow> (None, save_doc (notify_log_doc self meta) w2)))
         | (Some e, w2) \<Rightarrow>
             (case notify_except h outcome e w2 of
                (error_message, raised, w3) \<Rightarrow>
                  (raised,
                   save_doc (notify_log_doc self (PDict [(''error'', error_message)])) w3)))"

subsection \<open>The scheduler entry point: \<open>get_documents_for_today\<close> (lines 460 to 484)\<close>

text \<open>A point in time is a day number and the microsecond of that day; the database
  orders them day first. \<open>"23:59:59.000000"\<close> is microsecond \<open>86399000000\<close>.\<close>

type_synonym timestamp = "int \<times> nat"

definition ts_le :: "timestamp \<Rightarrow> timestamp \<Rightarrow> bool" where
  "ts_le a b = (fst a < fst b \<or> (fst a = fst b \<and> snd a \<le> snd b))"

text \<open>Lines 464 to 470: \<open>reference_date_start\<close> and \<open>reference_date_end\<close>, for the day
  number \<open>today\<close> that \<open>nowdate()\<close> gives.\<close>

definition reference_window :: "rule \<Rightarrow> int \<Rightarrow> timestamp \<times> timestamp" where
  "reference_window self today =
     (let diff_days = days_in_advance self;
          diff_days = (if doctype_event self = ''Days After'' then - diff_days else diff_days);
          reference_date = today + diff_days
      in ((reference_date, 0), (reference_date, 86399000000)))"

text \<open>The value of a Date or Datetime column as the database compares it with the two
  bounds; a date is its midnight. Other values (\<open>NULL\<close> among them) satisfy no
  comparison.\<close>

definition as_timestamp :: "pyval \<Rightarrow> timestamp option" where
  "as_timestamp v =
     (case v of PDate d \<Rightarrow> Some (d, 0) | PDatetime d u \<Rightarrow> Some (d, u) | _ \<Rightarrow> None)"

text \<open>The two filters of \<open>frappe.get_all\<close>, lines 475 to 478, on one record.\<close>

definition in_window :: "string \<Rightarrow> timestamp \<times> timestamp \<Rightarrow> document \<Rightarrow> bool" where
  "in_window field window doc =
     (case map_of (doc_dict doc) field of
        None \<Rightarrow> False
      | Some v \<Rightarrow>
          (case as_timestamp v of
             None \<Rightarrow> False
           | Some t \<Rightarrow> ts_le (fst window) t \<and> ts_le t (snd window)))"

definition doc_list :: "host \<Rightarrow> rule \<Rightarrow> document list" where
  "doc_list h self =
     filter (in_window (date_changed self) (reference_window self (nowdate h)))
       (get_all_docs h (reference_doctype self))"

text \<open>The loop of lines 481 to 483: an exception of one send ends it.\<close>

fun send_each :: "host \<Rightarrow> rule \<Rightarrow> document list \<Rightarrow> world \<Rightarrow> exn option \<times> world" where
  "send_each h self [] w = (None, w)"
| "send_each h self (d # ds) w =
     (case send_template_message h self d None PNone False w of
        (Some e, w') \<Rightarrow> (Some e, w')
      | (None, w') \<Rightarrow> send_each h self ds w')"

definition get_documents_for_today :: "host \<Rightarrow> rule \<Rightarrow> world \<Rightarrow> exn option \<times> world" where
  "get_documents_for_today h self w = send_each h self (doc_list h self) w"

subsection \<open>Notions used to state the properties\<close>

text \<open>A template body as it is written: literal text and placeholders \<open>{{i}}\<close> in turn.
  \<open>flatten\<close> is the body's string.\<close>

datatype segment = Lit string | Hole nat

fun flatten :: "segment list \<Rightarrow> string" where
  "flatten [] = []"
| "flatten (Lit t # segs) = t @ flatten segs"
| "flatten (Hole i # segs) = placeholder i @ flatten segs"

text \<open>Text that cannot be read as part of a placeholder, whatever stands after it: it holds
  no two opening braces in a row and does not end in an opening brace. A literal piece
  of a body is to be such text.\<close>

fun no_open_pair :: "string \<Rightarrow> bool" where
  "no_open_pair [] = True"
| "no_open_pair [c] = (c \<noteq> CHR ''{'')"
| "no_open_pair (c # d # cs) = ((c \<noteq> CHR ''{'' \<or> d \<noteq> CHR ''{'') \<and> no_open_pair (d # cs))"

fun literal_ok :: "segment \<Rightarrow> bool" where
  "literal_ok (Lit t) = no_open_pair t"
| "literal_ok (Hole i) = True"

text \<open>The body with every placeholder numbered \<open>i0\<close> to \<open>i0 + length ps - 1\<close> filled by its
  parameter, and every other placeholder left as it is.\<close>

fun fill_from :: "host \<Rightarrow> nat \<Rightarrow> pyval list \<Rightarrow> segment \<Rightarrow> string" where
  "fill_from h i0 ps (Lit t) = t"
| "fill_from h i0 ps (Hole i) =
     (if i0 \<le> i \<and> i < i0 + length ps then localized h (ps ! (i - i0)) else placeholder i)"

definition filled :: "host \<Rightarrow> pyval list \<Rightarrow> segment list \<Rightarrow> string" where
  "filled h ps segs = concat (map (fill_from h 1 ps) segs)"

fun subst1 :: "nat \<Rightarrow> string \<Rightarrow> segment \<Rightarrow> segment" where
  "subst1 i v (Lit t) = Lit t"
| "subst1 i v (Hole j) = (if j = i then Lit v else Hole j)"

fun hole_numbers :: "segment list \<Rightarrow> nat list" where
  "hole_numbers [] = []"
| "hole_numbers (Lit t # segs) = hole_numbers segs"
| "hole_numbers (Hole i # segs) = i # hole_numbers segs"

text \<open>\<open>sep.join(pieces)\<close>: a string cut at the occurrences of \<open>sep\<close>.\<close>

fun join :: "string \<Rightarrow> string list \<Rightarrow> string" where
  "join sep [] = []"
| "join sep [p] = p"
| "join sep (p # q # ps) = p @ sep @ join sep (q # ps)"

definition is_digit :: "char \<Rightarrow> bool" where
  "is_digit c = (c \<in> set ''0123456789'')"

text \<open>The answer to the request that \<open>notify_evolution\<close> makes, and whether it makes the
  send a success in the sense of lines 279 to 307: status 200 or 201 and a body from
  which the message id can be read.\<close>

definition evolution_response ::
  "host \<Rightarrow> rule \<Rightarrow> string \<Rightarrow> string option \<Rightarrow> string option \<Rightarrow> string option \<Rightarrow> http_result" where
  "evolution_response h self phone_number message_text attachment_url filename =
     (let settings = get_evolution_settings h (sender_number self) in
      case evolution_request settings phone_number message_text attachment_url filename of
        (url, payload, content_type', message_text') \<Rightarrow>
          requests_post h url
            (PDict [(''Content-Type'', PStr ''application/json''),
                    (''apikey'', PStr (global_api_key settings))])
            payload)"

definition evolution_succeeds :: "http_result \<Rightarrow> bool" where
  "evolution_succeeds r =
     (case r of
        PostFailed e \<Rightarrow> False
      | Response status_code body \<Rightarrow>
          (case body of
             Inl e \<Rightarrow> False
           | Inr response_data \<Rightarrow>
               (status_code = 200 \<or> status_code = 201)
               \<and> (case extract_message_id response_data of Inl e \<Rightarrow> False | Inr m \<Rightarrow> True)))"

text \<open>The outcome of the request that \<open>notify\<close> makes, and whether its \<open>try\<close> block runs to
  the end, where \<open>success\<close> is set.\<close>

definition notify_outcome :: "host \<Rightarrow> pyval \<Rightarrow> post_outcome" where
  "notify_outcome h data =
     (let settings = get_whatsapp_settings h in
      make_post_request h
        (settings_url settings @ ''/'' @ settings_version settings @ ''/''
           @ settings_phone_id settings @ ''/messages'')
        (PDict [(''authorization'', PStr (''Bearer '' @ settings_token settings)),
                (''content-type'', PStr ''application/json'')])
        (json_dumps h data))"

definition notify_succeeds ::
  "host \<Rightarrow> rule \<Rightarrow> pyval \<Rightarrow> (string \<times> pyval) list option \<Rightarrow> bool" where
  "notify_succeeds h self data doc_data =
     (case returned_value (notify_outcome h data) of
        Inl e \<Rightarrow> False
      | Inr response \<Rightarrow>
          (case template_parameters h data of
             Inl e \<Rightarrow> False
           | Inr parameters \<Rightarrow>
               (case notify_message_doc h self data response parameters doc_data of
                  Inl e \<Rightarrow> False
                | Inr new_doc \<Rightarrow> True)))"

text \<open>A field of the \<open>meta_data\<close> of a Notification Log document.\<close>

definition meta_field :: "string \<Rightarrow> pyval \<Rightarrow> pyval" where
  "meta_field name log =
     (case log of
        PDict kvs \<Rightarrow>
          (case map_of kvs ''meta_data'' of
             Some (PDict m) \<Rightarrow> dict_get m name PNone
           | _ \<Rightarrow> PNone)
      | _ \<Rightarrow> PNone)"

text \<open>Whether a write-back is configured and its target is a numeric field of the
  triggering record's schema.\<close>

definition numeric_write_back :: "host \<Rightarrow> rule \<Rightarrow> (string \<times> pyval) list \<Rightarrow> bool" where
  "numeric_write_back h self dd =
     (dd \<noteq> [] \<and> set_property_after_alert self \<noteq> [] \<and> property_value self \<noteq> []
      \<and> truthy (dict_get dd ''doctype'' PNone) \<and> truthy (dict_get dd ''name'' PNone)
      \<and> (case get_meta_field h (dict_get dd ''doctype'' PNone) (set_property_after_alert self) of
            None \<Rightarrow> False
          | Some fieldtype \<Rightarrow> fieldtype \<in> set (numeric_fieldtypes h)))"

text \<open>The message that the handlers of lines 335 to 348 keep for an exception, and the value
  that the error field of the log holds after a response whose status is neither 200 nor
  201: what line 328 reads out of the body, or the handlers' message when the body cannot
  be decoded or line 328 raises.\<close>

definition handler_message :: "exn \<Rightarrow> string" where
  "handler_message e =
     (if is_request_exception e then ''Connection error: '' @ str_exn e else str_exn e)"

definition logged_error :: "exn + pyval \<Rightarrow> pyval" where
  "logged_error body =
     (case body of
        Inl e \<Rightarrow> PStr (handler_message e)
      | Inr response_data \<Rightarrow>
          (case extract_error_message response_data of
             Inl e \<Rightarrow> PStr (handler_message e)
           | Inr m \<Rightarrow> m))"

text \<open>The attachment state: there is an attachment when the URL or content is a
  non-empty string, and it is a PDF when the file name ends in \<open>.pdf\<close> in any letter
  case.\<close>

definition has_attachment :: "string option \<Rightarrow> bool" where
  "has_attachment attachment_url = (case attachment_url of None \<Rightarrow> False | Some u \<Rightarrow> u \<noteq> [])"

definition is_pdf :: "string option \<Rightarrow> bool" where
  "is_pdf filename = (case filename of None \<Rightarrow> False | Some f \<Rightarrow> suffix ''.pdf'' (str_lower f))"

definition evolution_headers :: "evolution_settings \<Rightarrow> pyval" where
  "evolution_headers settings =
     PDict [(''Content-Type'', PStr ''application/json''),
            (''apikey'', PStr (global_api_key settings))]"

subsection \<open>Concrete inputs\<close>

text \<open>An integer coercion on plain decimal numerals, for the example host.\<close>

definition example_cint :: "string \<Rightarrow> int" where
  "example_cint s =
     (if s \<noteq> [] \<and> list_all is_digit s
      then foldl (\<lambda>n c. 10 * n + (of_char c - 48)) 0 s else 0)"

definition example_host :: host where
  "example_host =
     \<lparr>translate = (\<lambda>s lang. s),
      host_str = (\<lambda>v. ''<value>''),
      json_dumps = (\<lambda>v. ''<json>''),
      safe_eval = (\<lambda>c d. Inr (PBool False)),
      get_template = (\<lambda>n. PDict [(''name'', PStr n)]),
      get_evolution_settings =
        (\<lambda>n. \<lparr>base_url = ''http://evo'', instance_name = ''main'', global_api_key = ''key''\<rparr>),
      requests_post =
        (\<lambda>u hd pl. Response 200 (Inr (PDict [(''key'', PDict [(''id'', PStr ''M1'')])]))),
      get_meta_field = (\<lambda>dt f. if f = ''reminded'' then Some ''Int'' else None),
      numeric_fieldtypes = [''Currency'', ''Int'', ''Long Int'', ''Float'', ''Percent'', ''Check''],
      cint = example_cint,
      get_doctype = (\<lambda>dt. (False, [])),
      get_property_setter = (\<lambda>dt. []),
      attach_print = (\<lambda>dt nm pf d. Inr (''invoice.pdf'', ''JVBERi0='')),
      get_url = ''http://site'',
      get_whatsapp_settings =
        \<lparr>settings_url = ''https://graph'', settings_version = ''v17.0'',
         settings_phone_id = ''42'', settings_token = ''tok''\<rparr>,
      make_post_request =
        (\<lambda>u hd b. PostJson (PDict [(''messages'', PList [PDict [(''id'', PStr ''wamid.1'')]])])),
      nowdate = 100,
      get_all_docs = (\<lambda>dt. [])\<rparr>"

definition example_rule :: rule where
  "example_rule =
     \<lparr>disabled = False, condition = ''doc.status == 1'', field_name = ''mobile'',
      template = ''reminder'', code = Some ''Dear {{1}}, invoice {{2}} is due.'',
      param_fields = [''customer'', ''name''], attach_document_print = False,
      custom_attachment = False, file_name = None, attach_from_field = [], attach = None,
      sender_number = ''main'', set_property_after_alert = ''reminded'', property_value = ''5'',
      content_type = [], reference_doctype = ''Invoice'', date_changed = ''due_date'',
      days_in_advance = 3, doctype_event = ''Days Before''\<rparr>"

definition example_doc_data :: "(string \<times> pyval) list" where
  "example_doc_data =
     [(''doctype'', PStr ''Invoice''), (''name'', PStr ''INV-1''),
      (''mobile'', PStr ''+491701234567''), (''customer'', PStr ''Ada''),
      (''due_date'', PDate 103)]"

definition example_doc :: document where
  "example_doc =
     \<lparr>is_document = True, doc_dict = example_doc_data,
      get_formatted = (\<lambda>f. dict_get example_doc_data f PNone),
      document_share_key = ''s3cr3t''\<rparr>"

definition example_data :: pyval where
  "example_data =
     PDict [(''messaging_product'', PStr ''whatsapp''), (''to'', PStr ''491701234567''),
            (''type'', PStr ''template''),
            (''template'', PDict [(''name'', PStr ''reminder''),
                                  (''language'', PDict [(''code'', PStr ''en'')]),
                                  (''components'', PList [])])]"

definition empty_world :: world where
  "empty_world =
     \<lparr>documents = [], db_set_values = [], http_posts = [], msgprints = [],
      conditions_evaluated = []\<rparr>"

definition witness_rule :: rule where
  "witness_rule =
     example_rule\<lparr>code := Some (flatten [Lit ''Dear '', Hole 1, Lit '', invoice {no. '', Hole 2,
                                          Lit ''} is due on '', Hole 3, Lit ''.''])\<rparr>"

text \<open>A host whose gateway gives a fixed answer, and a record whose date field lies in
  the last second of day 103.\<close>

definition failing_host :: "http_result \<Rightarrow> host" where
  "failing_host r = example_host\<lparr>requests_post := (\<lambda>u hs pl. r)\<rparr>"

definition late_doc :: document where
  "late_doc =
     \<lparr>is_document = True,
      doc_dict = [(''doctype'', PStr ''Invoice''), (''name'', PStr ''INV-2''),
                  (''mobile'', PStr ''+491701234567''), (''customer'', PStr ''Bob''),
                  (''due_date'', PDatetime 103 86399500000)],
      get_formatted = (\<lambda>f. PStr ''Bob''),
      document_share_key = ''s3cr3t''\<rparr>"

section \<open>Properties\<close>

subsection \<open>Decimal numerals, placeholders and replacement\<close>

lemma is_digit_iff: "is_digit c = (c \<in> set ''0123456789'')"
  by (simp only: is_digit_def)

lemma digit_chr_is_digit: "d < 10 \<Longrightarrow> is_digit (digit_chr d)"
  unfolding is_digit_iff digit_chr_def
  by (rule nth_mem) simp

lemma digit_chr_inj: "a < 10 \<Longrightarrow> b < 10 \<Longrightarrow> digit_chr a = digit_chr b \<Longrightarrow> a = b"
proof -
  assume a: "a < 10" and b: "b < 10" and e: "digit_chr a = digit_chr b"
  have d: "distinct ''0123456789''" by simp
  have "a < length ''0123456789''" "b < length ''0123456789''" using a b by simp_all
  with d e show "a = b" unfolding digit_chr_def by (simp only: nth_eq_iff_index_eq)
qed

lemma str_nat_digits: "\<forall>c \<in> set (str_nat n). is_digit c"
proof (induction n rule: str_nat.induct)
  case (1 n)
  show ?case
  proof (cases "n < 10")
    case True
    then show ?thesis by (simp add: str_nat.simps[of n] digit_chr_is_digit)
  next
    case False
    with 1 show ?thesis by (simp add: str_nat.simps[of n] digit_chr_is_digit)
  qed
qed

lemma str_nat_not_Nil: "str_nat n \<noteq> []"
  by (subst str_nat.simps) simp

lemma str_nat_length: "n \<ge> 10 \<Longrightarrow> length (str_nat n) \<ge> 2"
  using str_nat_not_Nil[of "n div 10"]
  by (subst str_nat.simps) (simp add: Suc_le_eq)

lemma str_nat_inj: "str_nat n = str_nat m \<Longrightarrow> n = m"
proof (induction n arbitrary: m rule: str_nat.induct)
  case (1 n)
  show ?case
  proof (cases "n < 10")
    case n: True
    show ?thesis
    proof (cases "m < 10")
      case True
      with n 1(2) show ?thesis
        by (simp add: str_nat.simps[of n] str_nat.simps[of m] digit_chr_inj)
    next
      case False
      then have "length (str_nat m) \<ge> 2" by (simp add: str_nat_length)
      moreover have "length (str_nat n) = 1" using n by (simp add: str_nat.simps[of n])
      ultimately show ?thesis using 1(2) by simp
    qed
  next
    case n: False
    show ?thesis
    proof (cases "m < 10")
      case True
      from n have "length (str_nat n) \<ge> 2" by (simp add: str_nat_length)
      moreover have "length (str_nat m) = 1" using True by (simp add: str_nat.simps[of m])
      ultimately show ?thesis using 1(2) by simp
    next
      case False
      from 1(2) n False
      have e: "str_nat (n div 10) @ [digit_chr (n mod 10)] = str_nat (m div 10) @ [digit_chr (m mod 10)]"
        by (simp add: str_nat.simps[of n] str_nat.simps[of m])
      then have "str_nat (n div 10) = str_nat (m div 10)" and d: "digit_chr (n mod 10) = digit_chr (m mod 10)"
        by simp_all
      then have "n div 10 = m div 10" using 1(1)[OF n] by simp
      moreover have "n mod 10 = m mod 10" using d by (intro digit_chr_inj) simp_all
      ultimately show ?thesis by (metis div_mult_mod_eq)
    qed
  qed
qed

lemma is_digit_not_brace: "is_digit c \<Longrightarrow> c \<noteq> CHR ''{'' \<and> c \<noteq> CHR ''}''"
  unfolding is_digit_iff by auto


lemma digits_prefix:
  "\<forall>c \<in> set ds. is_digit c \<Longrightarrow> \<forall>c \<in> set es. is_digit c \<Longrightarrow>
   prefix (ds @ ''}}'') (es @ ''}}'' @ r) \<Longrightarrow> ds = es"
proof (induction ds arbitrary: es)
  case Nil
  then show ?case by (cases es) (auto dest: is_digit_not_brace)
next
  case (Cons d ds)
  then show ?case by (cases es) (auto dest: is_digit_not_brace)
qed

lemma placeholder_Cons: "placeholder i = CHR ''{'' # CHR ''{'' # (str_nat i @ ''}}'')"
  by (simp add: placeholder_def)

lemma placeholder_not_Nil: "placeholder i \<noteq> []"
  by (simp add: placeholder_def)

lemma placeholder_prefix_eq:
  assumes "prefix (placeholder i) (placeholder j @ r)"
  shows "i = j"
proof -
  from assms have "prefix (str_nat i @ ''}}'') (str_nat j @ ''}}'' @ r)"
    by (simp add: placeholder_def)
  then have "str_nat i = str_nat j"
    using digits_prefix str_nat_digits by blast
  then show ?thesis by (rule str_nat_inj)
qed

lemma tail_no_open_brace: "CHR ''{'' \<notin> set (str_nat i @ ''}}'')"
  using str_nat_digits[of i] by (auto dest: is_digit_not_brace)

lemma placeholder_suffix_no_prefix:
  assumes p: "placeholder i = a @ us" and a: "a \<noteq> []" and us: "us \<noteq> []"
  shows "\<not> prefix us (placeholder j @ r)"
proof
  assume pre: "prefix us (placeholder j @ r)"
  from us obtain u us' where u: "us = u # us'" by (cases us) auto
  with pre have hd: "u = CHR ''{''" by (simp add: placeholder_Cons)
  from a obtain a' where a': "a = CHR ''{'' # a'" using p by (cases a) (auto simp: placeholder_Cons)
  show False
  proof (cases a')
    case Nil
    with p a' have "us = CHR ''{'' # (str_nat i @ ''}}'')" by (simp add: placeholder_Cons)
    with pre have "prefix (str_nat i @ ''}}'') (CHR ''{'' # (str_nat j @ ''}}'') @ r)"
      by (simp add: placeholder_Cons)
    moreover obtain d ds where "str_nat i = d # ds" using str_nat_not_Nil[of i] by (cases "str_nat i") auto
    ultimately have "d = CHR ''{''" by simp
    moreover have "d \<in> set (str_nat i @ ''}}'')" using \<open>str_nat i = d # ds\<close> by simp
    ultimately show False using tail_no_open_brace[of i] by simp
  next
    case (Cons b a'')
    with p a' have "str_nat i @ ''}}'' = a'' @ us" by (simp add: placeholder_Cons)
    then have "u \<in> set (str_nat i @ ''}}'')" using u by simp
    with hd show False using tail_no_open_brace[of i] by simp
  qed
qed

lemma placeholder_no_prefix_append:
  assumes "a \<noteq> []" and "\<not> prefix (placeholder i) a"
  shows "\<not> prefix (placeholder i) (a @ placeholder j @ r)"
proof
  assume "prefix (placeholder i) (a @ placeholder j @ r)"
  then consider "prefix (placeholder i) a"
    | us where "placeholder i = a @ us" "prefix us (placeholder j @ r)"
    by (auto simp: prefix_append)
  then show False
  proof cases
    case 1
    with assms show False by simp
  next
    case 2
    have "us \<noteq> []" using 2(1) assms(2) by auto
    with 2 assms(1) show False using placeholder_suffix_no_prefix by blast
  qed
qed

lemma str_replace_same: "old \<noteq> [] \<Longrightarrow> str_replace old new (old @ r) = new @ str_replace old new r"
  by (cases old) simp_all

lemma no_brace_no_open_pair: "CHR ''{'' \<notin> set s \<Longrightarrow> no_open_pair s"
  by (induction s rule: no_open_pair.induct) auto

lemma no_open_pair_tl: "no_open_pair (c # s) \<Longrightarrow> no_open_pair s"
  by (cases s) auto

lemma no_open_pair_append: "no_open_pair a \<Longrightarrow> no_open_pair b \<Longrightarrow> no_open_pair (a @ b)"
proof (induction a rule: no_open_pair.induct)
  case 1
  then show ?case by simp
next
  case (2 c)
  then show ?case by (cases b) auto
next
  case (3 c d cs)
  then show ?case by auto
qed

lemma no_open_pair_suffix: "no_open_pair (x @ y) \<Longrightarrow> no_open_pair y"
  by (induction x) (auto dest: no_open_pair_tl)

lemma no_open_pair_no_placeholder: "no_open_pair s \<Longrightarrow> \<not> sublist (placeholder j) s"
proof
  assume a: "no_open_pair s" and "sublist (placeholder j) s"
  then obtain x y where "s = x @ placeholder j @ y" by (auto simp: sublist_def)
  with a have "no_open_pair (placeholder j @ y)" by (auto dest: no_open_pair_suffix)
  then show False by (simp add: placeholder_Cons)
qed

lemma str_replace_literal:
  "no_open_pair t \<Longrightarrow>
   str_replace (placeholder i) new (t @ r) = t @ str_replace (placeholder i) new r"
proof (induction t rule: no_open_pair.induct)
  case 1
  then show ?case by simp
next
  case (2 c)
  then show ?case by (simp add: placeholder_Cons)
next
  case (3 c d cs)
  then show ?case by (auto simp: placeholder_Cons)
qed

lemma str_replace_other:
  assumes "i \<noteq> j"
  shows "str_replace (placeholder i) new (placeholder j @ r)
           = placeholder j @ str_replace (placeholder i) new r"
proof -
  have 1: "\<not> prefix (placeholder i) (placeholder j @ r)"
    using assms placeholder_prefix_eq by blast
  obtain d ds where d: "str_nat j = d # ds"
    using str_nat_not_Nil[of j] by (cases "str_nat j") auto
  have "d \<in> set (str_nat j @ ''}}'')" using d by simp
  then have dne: "d \<noteq> CHR ''{''" using tail_no_open_brace[of j] by auto
  have 3: "str_replace (placeholder i) new ((str_nat j @ ''}}'') @ r)
             = (str_nat j @ ''}}'') @ str_replace (placeholder i) new r"
    by (rule str_replace_literal) (rule no_brace_no_open_pair, rule tail_no_open_brace)
  have "str_replace (placeholder i) new (placeholder j @ r)
          = CHR ''{'' # str_replace (placeholder i) new (CHR ''{'' # (str_nat j @ ''}}'') @ r)"
    using 1 by (simp add: placeholder_Cons[of j] placeholder_not_Nil)
  also have "str_replace (placeholder i) new (CHR ''{'' # (str_nat j @ ''}}'') @ r)
          = CHR ''{'' # str_replace (placeholder i) new ((str_nat j @ ''}}'') @ r)"
    using dne d by (simp add: placeholder_Cons[of i])
  finally show ?thesis using 3 by (simp add: placeholder_Cons[of j])
qed

lemma str_replace_absent: "old \<noteq> [] \<Longrightarrow> \<not> sublist old p \<Longrightarrow> str_replace old new p = p"
  by (induction p) (auto simp: sublist_Cons_right)

lemma str_replace_keeps_other:
  assumes "i \<noteq> j"
  shows "str_replace (placeholder i) new (a @ placeholder j @ b)
           = str_replace (placeholder i) new a @ placeholder j @ str_replace (placeholder i) new b"
proof (induction "placeholder i" new a rule: str_replace.induct)
  case (1 new)
  then show ?case using assms by (simp add: str_replace_other placeholder_not_Nil)
next
  case (2 new c cs)
  show ?case
  proof (cases "prefix (placeholder i) (c # cs)")
    case True
    then have le: "length (placeholder i) \<le> length (c # cs)" by (rule prefix_length_le)
    have pre: "prefix (placeholder i) ((c # cs) @ placeholder j @ b)"
      using True by (rule prefix_prefix)
    have "str_replace (placeholder i) new ((c # cs) @ placeholder j @ b)
            = new @ str_replace (placeholder i) new (drop (length (placeholder i)) ((c # cs) @ placeholder j @ b))"
      using pre by (simp add: placeholder_not_Nil)
    also have "drop (length (placeholder i)) ((c # cs) @ placeholder j @ b)
            = drop (length (placeholder i)) (c # cs) @ placeholder j @ b"
      using le by (simp only: drop_append diff_is_0_eq' drop_0)
    also have "str_replace (placeholder i) new (drop (length (placeholder i)) (c # cs) @ placeholder j @ b)
            = str_replace (placeholder i) new (drop (length (placeholder i)) (c # cs)) @ placeholder j
                @ str_replace (placeholder i) new b"
      using 2(2) True by (simp add: placeholder_not_Nil)
    finally show ?thesis using True by (simp add: placeholder_not_Nil)
  next
    case False
    then have "\<not> prefix (placeholder i) ((c # cs) @ placeholder j @ b)"
      by (intro placeholder_no_prefix_append) simp_all
    then have "str_replace (placeholder i) new ((c # cs) @ placeholder j @ b)
            = c # str_replace (placeholder i) new (cs @ placeholder j @ b)"
      by (simp add: placeholder_not_Nil)
    then show ?thesis using 2(3) False by (simp add: placeholder_not_Nil)
  qed
qed

lemma str_replace_piece:
  "\<not> sublist (placeholder i) p \<Longrightarrow>
   str_replace (placeholder i) new (p @ placeholder i @ r) = p @ new @ str_replace (placeholder i) new r"
proof (induction p)
  case Nil
  then show ?case by (simp add: str_replace_same placeholder_not_Nil)
next
  case (Cons c p)
  then have np: "\<not> prefix (placeholder i) (c # p)" and ns: "\<not> sublist (placeholder i) p"
    by (auto simp: sublist_Cons_right)
  from np have "\<not> prefix (placeholder i) ((c # p) @ placeholder i @ r)"
    by (intro placeholder_no_prefix_append) simp_all
  then have "str_replace (placeholder i) new ((c # p) @ placeholder i @ r)
          = c # str_replace (placeholder i) new (p @ placeholder i @ r)"
    by (simp add: placeholder_not_Nil)
  with Cons.IH[OF ns] show ?case by simp
qed


lemma str_replace_flatten:
  "list_all literal_ok segs \<Longrightarrow>
   str_replace (placeholder i) v (flatten segs) = flatten (map (subst1 i v) segs)"
proof (induction segs)
  case Nil
  then show ?case by (simp add: placeholder_not_Nil)
next
  case (Cons seg segs)
  then show ?case
    by (cases seg)
       (simp_all add: str_replace_literal str_replace_same str_replace_other placeholder_not_Nil)
qed

lemma subst1_literal_ok:
  "no_open_pair v \<Longrightarrow> list_all literal_ok segs \<Longrightarrow> list_all literal_ok (map (subst1 i v) segs)"
proof (induction segs)
  case Nil
  then show ?case by simp
next
  case (Cons seg segs)
  then show ?case by (cases seg) simp_all
qed

lemma fill_from_subst1:
  "fill_from h (Suc i0) rest (subst1 i0 (localized h p) seg) = fill_from h i0 (p # rest) seg"
proof (cases seg)
  case (Lit t)
  then show ?thesis by simp
next
  case (Hole i)
  show ?thesis
  proof (cases "i = i0")
    case True
    with Hole show ?thesis by simp
  next
    case False
    have "(p # rest) ! (i - i0) = rest ! (i - Suc i0)" if "i0 \<le> i"
    proof -
      have "i - i0 = Suc (i - Suc i0)" using that False by arith
      then show ?thesis by simp
    qed
    with Hole False show ?thesis by auto
  qed
qed

lemma flatten_concat_literals: "flatten segs = concat (map (fill_from h i0 []) segs)"
proof (induction segs)
  case Nil
  then show ?case by simp
next
  case (Cons seg segs)
  then show ?case by (cases seg) auto
qed

lemma replace_parameters_flatten:
  "list_all literal_ok segs \<Longrightarrow> \<forall>p \<in> set ps. no_open_pair (localized h p) \<Longrightarrow>
   replace_parameters h i0 ps (flatten segs) = concat (map (fill_from h i0 ps) segs)"
proof (induction ps arbitrary: i0 segs)
  case Nil
  show ?case using flatten_concat_literals[of segs h i0] by simp
next
  case (Cons p rest)
  let ?segs' = "map (subst1 i0 (localized h p)) segs"
  have ok: "list_all literal_ok ?segs'" using Cons.prems by (simp add: subst1_literal_ok)
  have "replace_parameters h i0 (p # rest) (flatten segs)
          = replace_parameters h (Suc i0) rest (flatten ?segs')"
    using Cons.prems(1) by (simp add: str_replace_flatten)
  also have "\<dots> = concat (map (fill_from h (Suc i0) rest) ?segs')"
    using Cons.IH[OF ok] Cons.prems(2) by simp
  also have "\<dots> = concat (map (fill_from h i0 (p # rest)) segs)"
    by (simp add: o_def fill_from_subst1)
  finally show ?case .
qed


lemma replace_parameters_keeps:
  "j < i0 \<or> i0 + length ps \<le> j \<Longrightarrow> sublist (placeholder j) body \<Longrightarrow>
   sublist (placeholder j) (replace_parameters h i0 ps body)"
proof (induction ps arbitrary: i0 body)
  case Nil
  then show ?case by simp
next
  case (Cons p rest)
  from Cons.prems(2) obtain a b where t: "body = a @ placeholder j @ b"
    by (auto simp: sublist_def)
  have ne: "i0 \<noteq> j" using Cons.prems(1) by auto
  have "sublist (placeholder j) (str_replace (placeholder i0) (localized h p) body)"
    unfolding t str_replace_keeps_other[OF ne] by (rule sublist_appendI)
  moreover have "j < Suc i0 \<or> Suc i0 + length rest \<le> j" using Cons.prems(1) by auto
  ultimately show ?case using Cons.IH by simp
qed


lemma str_replace_join:
  "\<forall>p \<in> set pieces. \<not> sublist (placeholder i) p \<Longrightarrow>
   str_replace (placeholder i) new (join (placeholder i) pieces) = join new pieces"
proof (induction "placeholder i" pieces rule: join.induct)
  case 1
  then show ?case by (simp add: placeholder_not_Nil)
next
  case (2 p)
  then show ?case by (simp add: str_replace_absent placeholder_not_Nil)
next
  case (3 p q ps)
  then show ?case by (simp add: str_replace_piece)
qed






lemma render_message_eq:
  assumes "code self = Some body" and "length ps = length (param_fields self)"
  shows "render_message h self ps = Inr (Some (replace_parameters h 1 ps body))"
proof (cases "ps = []")
  case True
  with assms show ?thesis by (simp add: render_message_def)
next
  case False
  with assms have "param_fields self \<noteq> []" by auto
  with False assms show ?thesis by (simp add: render_message_def)
qed

lemma filled_no_open_pair:
  "list_all literal_ok segs \<Longrightarrow> \<forall>p \<in> set ps. no_open_pair (localized h p) \<Longrightarrow>
   \<forall>i \<in> set (hole_numbers segs). 1 \<le> i \<and> i \<le> length ps \<Longrightarrow>
   no_open_pair (filled h ps segs)"
proof (induction segs)
  case Nil
  then show ?case by (simp add: filled_def)
next
  case (Cons seg segs)
  then have ih: "no_open_pair (filled h ps segs)" by (cases seg) auto
  show ?case
  proof (cases seg)
    case (Lit t)
    with Cons.prems ih show ?thesis by (simp add: filled_def no_open_pair_append)
  next
    case (Hole i)
    with Cons.prems have i: "1 \<le> i" "i \<le> length ps" by simp_all
    then have "ps ! (i - 1) \<in> set ps" by (intro nth_mem) arith
    with Cons.prems(2) have "no_open_pair (localized h (ps ! (i - 1)))" by blast
    with Hole ih i show ?thesis by (simp add: filled_def no_open_pair_append)
  qed
qed

subsection \<open>The phone formatter\<close>

text \<open>
  Claim C8. For every input string the phone formatter returns the input with its leading
  character removed when the input starts with \<open>+\<close>, and the input unchanged otherwise.
  It is total on strings and looks at nothing but the first character: whatever follows
  the \<open>+\<close> (digits or not, of any length) is returned as it is.
\<close>

theorem format_number_strips_plus:
  "format_number (CHR ''+'' # rest) = rest
   \<and> (\<not> prefix ''+'' number \<longrightarrow> format_number number = number)"
  by (simp add: format_number_def)

theorem format_number_witness:
  "format_number ''+491701234567'' = ''491701234567''
   \<and> \<not> prefix ''+'' ''0049 170 x'' \<and> format_number ''0049 170 x'' = ''0049 170 x''"
  using format_number_strips_plus[of "''491701234567''" "''0049 170 x''"] by simp

subsection \<open>The template renderer\<close>



text \<open>Every string is cut at the occurrences of a placeholder into pieces that do not
  hold it.\<close>

lemma join_Cons_head: "join sep ((c # p) # ps) = c # join sep (p # ps)"
  by (cases ps) simp_all

lemma join_prefix: "prefix p (join sep (p # ps))"
  by (cases ps) simp_all

lemma pieces_exist:
  "\<exists>pieces. pieces \<noteq> [] \<and> s = join (placeholder i) pieces
     \<and> (\<forall>piece \<in> set pieces. \<not> sublist (placeholder i) piece)"
proof (induction s rule: length_induct)
  case (1 s)
  show ?case
  proof (cases s)
    case Nil
    have "[[]] \<noteq> [] \<and> [] = join (placeholder i) [[]]
            \<and> (\<forall>piece \<in> set [[]]. \<not> sublist (placeholder i) piece)"
      by (simp add: placeholder_not_Nil)
    with Nil show ?thesis by blast
  next
    case (Cons c s')
    show ?thesis
    proof (cases "prefix (placeholder i) s")
      case True
      then obtain r where r: "s = placeholder i @ r" by (auto simp: prefix_def)
      then have "length r < length s" by (simp add: placeholder_Cons)
      with 1 obtain pieces where p: "pieces \<noteq> []" "r = join (placeholder i) pieces"
        "\<forall>piece \<in> set pieces. \<not> sublist (placeholder i) piece"
        by blast
      from p(1) obtain q qs where q: "pieces = q # qs" by (cases pieces) auto
      have "[] # pieces \<noteq> [] \<and> s = join (placeholder i) ([] # pieces)
              \<and> (\<forall>piece \<in> set ([] # pieces). \<not> sublist (placeholder i) piece)"
        using p r q by (simp add: placeholder_not_Nil)
      then show ?thesis by blast
    next
      case False
      have "length s' < length s" using Cons by simp
      with 1 obtain pieces where p: "pieces \<noteq> []" "s' = join (placeholder i) pieces"
        "\<forall>piece \<in> set pieces. \<not> sublist (placeholder i) piece"
        by blast
      from p(1) obtain q qs where q: "pieces = q # qs" by (cases pieces) auto
      have s: "s = join (placeholder i) ((c # q) # qs)"
        using Cons p(2) q by (simp add: join_Cons_head)
      have "prefix (c # q) s" unfolding s by (rule join_prefix)
      then have "\<not> prefix (placeholder i) (c # q)" using False prefix_order.trans by blast
      moreover have "\<not> sublist (placeholder i) q" using p(3) q by simp
      ultimately have "\<not> sublist (placeholder i) (c # q)" by (simp add: sublist_Cons_right)
      then have "(c # q) # qs \<noteq> [] \<and> s = join (placeholder i) ((c # q) # qs)
              \<and> (\<forall>piece \<in> set ((c # q) # qs). \<not> sublist (placeholder i) piece)"
        using s p(3) q by simp
      then show ?thesis by blast
    qed
  qed
qed

text \<open>
  Claim C4, as the code has it. The body of the rule is any string, written as literal
  text and placeholders (\<open>flatten segs\<close>), and there is one parameter for each configured
  field. The renderer raises no error. It runs one pass for each parameter, in the order
  1, 2, ..., and
  \<^item> for every body and every value, the pass for parameter \<open>i\<close> replaces each
    occurrence of \<open>{{i}}\<close> in the text it finds by the \<open>i\<close>-th value (the text cut at the
    occurrences of \<open>{{i}}\<close> is joined again by the value) and the loop goes on with
    parameter \<open>i + 1\<close>;
  \<^item> when no literal piece of the body and no value holds two opening braces in a row or
    ends in an opening brace, the result is the body with the \<open>i\<close>-th placeholder replaced
    by the \<open>i\<close>-th value for every \<open>i\<close> from 1 to the number of parameters, every other
    placeholder being left as it is;
  \<^item> when moreover every placeholder of the body has a number from 1 to the number of
    parameters, no placeholder is left in the result;
  \<^item> for every body and all values, a placeholder whose number exceeds the number of
    parameters and that occurs in the body occurs in the result.
  The value put in is the one the code computes, \<open>_(str(param), 'ar')\<close>.
\<close>

theorem placeholders_filled_in_order:
  assumes body: "code self = Some (flatten segs)"
      and len: "length ps = length (param_fields self)"
  shows "(\<exists>out. render_message h self ps = Inr (Some out))
       \<and> (\<exists>pieces. pieces \<noteq> [] \<and> s = join (placeholder i) pieces
             \<and> (\<forall>piece \<in> set pieces. \<not> sublist (placeholder i) piece)
             \<and> replace_parameters h i (param # rest) s
                 = replace_parameters h (Suc i) rest (join (localized h param) pieces))
       \<and> (list_all literal_ok segs \<and> (\<forall>p \<in> set ps. no_open_pair (localized h p))
            \<longrightarrow> render_message h self ps = Inr (Some (filled h ps segs)))
       \<and> (list_all literal_ok segs \<and> (\<forall>p \<in> set ps. no_open_pair (localized h p))
            \<and> (\<forall>k \<in> set (hole_numbers segs). 1 \<le> k \<and> k \<le> length ps)
            \<longrightarrow> (\<forall>j. \<not> sublist (placeholder j) (filled h ps segs)))
       \<and> (\<forall>j. length ps < j \<and> sublist (placeholder j) (flatten segs)
            \<longrightarrow> (\<exists>out. render_message h self ps = Inr (Some out) \<and> sublist (placeholder j) out))"
proof (intro conjI impI allI)
  show "\<exists>out. render_message h self ps = Inr (Some out)"
    using render_message_eq[OF body len, of h] by simp
next
  from pieces_exist[of s i] obtain pieces where
    p: "pieces \<noteq> []" "s = join (placeholder i) pieces"
       "\<forall>piece \<in> set pieces. \<not> sublist (placeholder i) piece"
    by blast
  have "replace_parameters h i (param # rest) (join (placeholder i) pieces)
          = replace_parameters h (Suc i) rest (join (localized h param) pieces)"
    using p(3) by (simp add: str_replace_join)
  with p show "\<exists>pieces. pieces \<noteq> [] \<and> s = join (placeholder i) pieces
             \<and> (\<forall>piece \<in> set pieces. \<not> sublist (placeholder i) piece)
             \<and> replace_parameters h i (param # rest) s
                 = replace_parameters h (Suc i) rest (join (localized h param) pieces)"
    by blast
next
  assume "list_all literal_ok segs \<and> (\<forall>p \<in> set ps. no_open_pair (localized h p))"
  then show "render_message h self ps = Inr (Some (filled h ps segs))"
    using render_message_eq[OF body len, of h]
    by (simp add: replace_parameters_flatten filled_def)
next
  fix j
  assume "list_all literal_ok segs \<and> (\<forall>p \<in> set ps. no_open_pair (localized h p))
            \<and> (\<forall>k \<in> set (hole_numbers segs). 1 \<le> k \<and> k \<le> length ps)"
  then have "no_open_pair (filled h ps segs)" by (simp add: filled_no_open_pair)
  then show "\<not> sublist (placeholder j) (filled h ps segs)" by (rule no_open_pair_no_placeholder)
next
  fix j
  assume a: "length ps < j \<and> sublist (placeholder j) (flatten segs)"
  then have "sublist (placeholder j) (replace_parameters h 1 ps (flatten segs))"
    by (intro replace_parameters_keeps) auto
  then show "\<exists>out. render_message h self ps = Inr (Some out) \<and> sublist (placeholder j) out"
    using render_message_eq[OF body len, of h] by simp
qed

lemma placeholder_numeral [simp]:
  "placeholder (Suc 0) = ''{{1}}''" "placeholder 2 = ''{{2}}''" "placeholder 3 = ''{{3}}''"
  "placeholder (Suc (Suc 0)) = ''{{2}}''"
  by (simp_all add: placeholder_def str_nat.simps digit_chr_def)

text \<open>Two of three placeholders are filled, in a body that also holds single braces, and
  the third stays.\<close>

theorem placeholders_filled_witness:
  "render_message example_host witness_rule [PStr ''Ada'', PStr ''INV-1'']
     = Inr (Some ''Dear Ada, invoice {no. INV-1} is due on {{3}}.'')
   \<and> sublist (placeholder 3) ''Dear Ada, invoice {no. INV-1} is due on {{3}}.''"
proof -
  let ?segs = "[Lit ''Dear '', Hole 1, Lit '', invoice {no. '', Hole 2, Lit ''} is due on '', Hole 3, Lit ''.'']"
  let ?ps = "[PStr ''Ada'', PStr ''INV-1'']"
  have b: "code witness_rule = Some (flatten ?segs)" by (simp add: witness_rule_def)
  have l: "length ?ps = length (param_fields witness_rule)"
    by (simp add: witness_rule_def example_rule_def)
  have v: "list_all literal_ok ?segs \<and> (\<forall>p \<in> set ?ps. no_open_pair (localized example_host p))"
    by (simp add: localized_def py_str_def example_host_def)
  have f: "filled example_host ?ps ?segs = ''Dear Ada, invoice {no. INV-1} is due on {{3}}.''"
    by (simp add: filled_def localized_def py_str_def example_host_def)
  from placeholders_filled_in_order[OF b l, of example_host] v f
  have "render_message example_host witness_rule ?ps
          = Inr (Some ''Dear Ada, invoice {no. INV-1} is due on {{3}}.'')"
    by simp
  moreover have "sublist (placeholder 3) ''Dear Ada, invoice {no. INV-1} is due on {{3}}.''"
    by (simp add: sublist_Cons_right)
  ultimately show ?thesis by simp
qed

text \<open>
  The claim as it is worded fails, since the passes run one after the other on the text
  the passes before them left. With the values \<open>{{2}}\<close> and \<open>x\<close> the body \<open>{{1}} {{2}}\<close>
  renders as \<open>x x\<close>: the first placeholder does not end up replaced by the first value,
  which would give \<open>{{2}} x\<close>. With the value \<open>{{1}}\<close> the body \<open>{{1}}\<close> renders as
  \<open>{{1}}\<close>, and with an empty value the body \<open>{{{{1}}1}}\<close> renders as \<open>{{1}}\<close>: a
  placeholder is left although there is a parameter for it.
\<close>

theorem sequential_passes_counterexample:
  "render_message example_host (example_rule\<lparr>code := Some ''{{1}} {{2}}''\<rparr>)
       [PStr ''{{2}}'', PStr ''x''] = Inr (Some ''x x'')
   \<and> filled example_host [PStr ''{{2}}'', PStr ''x''] [Hole 1, Lit '' '', Hole 2] = ''{{2}} x''
   \<and> render_message example_host (example_rule\<lparr>code := Some ''{{1}}''\<rparr>)
       [PStr ''{{1}}''] = Inr (Some ''{{1}}'')
   \<and> render_message example_host (example_rule\<lparr>code := Some ''{{{{1}}1}}''\<rparr>)
       [PStr []] = Inr (Some ''{{1}}'')"
  by (intro conjI;
      simp add: render_message_def example_rule_def filled_def localized_def py_str_def
        example_host_def)



subsection \<open>Effects on the world\<close>

lemma save_doc_fields [simp]:
  "documents (save_doc d w) = documents w @ [d]"
  "db_set_values (save_doc d w) = db_set_values w"
  "http_posts (save_doc d w) = http_posts w"
  "msgprints (save_doc d w) = msgprints w"
  "conditions_evaluated (save_doc d w) = conditions_evaluated w"
  by (simp_all add: save_doc_def)

lemma msgprint_fields [simp]:
  "documents (msgprint m w) = documents w"
  "db_set_values (msgprint m w) = db_set_values w"
  "http_posts (msgprint m w) = http_posts w"
  "msgprints (msgprint m w) = msgprints w @ [m]"
  "conditions_evaluated (msgprint m w) = conditions_evaluated w"
  by (simp_all add: msgprint_def)

lemma write_back_fields [simp]:
  "documents (write_back h self dd w) = documents w"
  "http_posts (write_back h self dd w) = http_posts w"
  "msgprints (write_back h self dd w) = msgprints w"
  "conditions_evaluated (write_back h self dd w) = conditions_evaluated w"
  by (simp_all add: write_back_def Let_def split: option.splits)

lemma write_back_numeric:
  "numeric_write_back h self dd \<Longrightarrow>
   db_set_values (write_back h self (Some dd) w)
     = db_set_values w @ [(dict_get dd ''doctype'' PNone, dict_get dd ''name'' PNone,
                           set_property_after_alert self, PInt (cint h (property_value self)))]"
  by (auto simp: numeric_write_back_def write_back_def Let_def split: option.splits)

lemma sent_messages_simps [simp]:
  "sent_messages (save_doc d w)
     = sent_messages w @ (if is_doctype ''WhatsApp Message'' d then [d] else [])"
  "sent_messages (msgprint m w) = sent_messages w"
  "sent_messages (write_back h self dd w) = sent_messages w"
  by (simp_all add: sent_messages_def)

lemma notification_logs_simps [simp]:
  "notification_logs (save_doc d w)
     = notification_logs w @ (if is_doctype ''WhatsApp Notification Log'' d then [d] else [])"
  "notification_logs (msgprint m w) = notification_logs w"
  "notification_logs (write_back h self dd w) = notification_logs w"
  by (simp_all add: notification_logs_def)

lemma sent_messages_http_posts [simp]:
  "sent_messages (w\<lparr>http_posts := x\<rparr>) = sent_messages w"
  "notification_logs (w\<lparr>http_posts := x\<rparr>) = notification_logs w"
  by (simp_all add: sent_messages_def notification_logs_def)

lemma evolution_message_doc_doctype [simp]:
  "is_doctype ''WhatsApp Message'' (evolution_message_doc h self pn mt mid ct ps dd)"
  "\<not> is_doctype ''WhatsApp Notification Log'' (evolution_message_doc h self pn mt mid ct ps dd)"
  by (simp_all add: is_doctype_def evolution_message_doc_def)

lemma evolution_log_doc_doctype [simp]:
  "is_doctype ''WhatsApp Notification Log'' (evolution_log_doc self s r e pn mt)"
  "\<not> is_doctype ''WhatsApp Message'' (evolution_log_doc self s r e pn mt)"
  by (simp_all add: is_doctype_def evolution_log_doc_def)

lemma evolution_log_doc_meta [simp]:
  "meta_field ''success'' (evolution_log_doc self s r e pn mt) = PBool s"
  "meta_field ''error'' (evolution_log_doc self s r e pn mt) = (if \<not> s then e else PNone)"
  "meta_field ''response'' (evolution_log_doc self s r e pn mt) = (if s then r else PNone)"
  by (simp_all add: meta_field_def evolution_log_doc_def dict_get_def)

lemma evolution_except_fields [simp]:
  "documents (snd (evolution_except s r e w)) = documents w"
  "db_set_values (snd (evolution_except s r e w)) = db_set_values w"
  "http_posts (snd (evolution_except s r e w)) = http_posts w"
  "sent_messages (snd (evolution_except s r e w)) = sent_messages w"
  "notification_logs (snd (evolution_except s r e w)) = notification_logs w"
  "fst (evolution_except s r e w)
     = (s, r, PStr ((if is_request_exception e then ''Connection error: '' else []) @ str_exn e))"
  by (simp_all add: evolution_except_def Let_def)

lemma evolution_try_logs:
  "notification_logs (snd (evolution_try h self url hs pn pl ct mt dd ps w)) = notification_logs w"
  by (simp add: evolution_try_def Let_def split: http_result.splits sum.splits)

lemma evolution_try_posts:
  "http_posts (snd (evolution_try h self url hs pn pl ct mt dd ps w)) = http_posts w @ [(url, hs, pl)]"
  by (simp add: evolution_try_def Let_def split: http_result.splits sum.splits)

lemma evolution_try_messages:
  "sent_messages (snd (evolution_try h self url hs pn pl ct mt dd ps w))
     = sent_messages w @
         (case requests_post h url hs pl of
            PostFailed e \<Rightarrow> []
          | Response status_code body \<Rightarrow>
              (case body of
                 Inl e \<Rightarrow> []
               | Inr response_data \<Rightarrow>
                   if status_code = 200 \<or> status_code = 201 then
                     (case extract_message_id response_data of
                        Inl e \<Rightarrow> []
                      | Inr message_id \<Rightarrow> [evolution_message_doc h self pn mt message_id ct ps dd])
                   else []))"
  by (simp add: evolution_try_def Let_def split: http_result.splits sum.splits)

lemma write_back_depends:
  "db_set_values w1 = db_set_values w2 \<Longrightarrow>
   db_set_values (write_back h self dd w1) = db_set_values (write_back h self dd w2)"
  by (simp add: write_back_def Let_def split: option.splits)

lemma evolution_try_writes:
  "db_set_values (snd (evolution_try h self url hs pn pl ct mt dd ps w))
     = (if evolution_succeeds (requests_post h url hs pl)
        then db_set_values (write_back h self dd w) else db_set_values w)"
  by (auto simp: evolution_try_def evolution_succeeds_def Let_def
        intro!: write_back_depends split: http_result.splits sum.splits)

lemma notify_evolution_unconfigured:
  "base_url (get_evolution_settings h (sender_number self)) = []
     \<or> instance_name (get_evolution_settings h (sender_number self)) = [] \<Longrightarrow>
   notify_evolution h self pn mt au fn t dd ps w
     = (Some (ValidationError ''Evolution Phone Settings not configured''), w)"
  by (simp add: notify_evolution_def Let_def)

subsection \<open>Backend A\<close>

lemma notify_message_doc_doctype:
  "notify_message_doc h self data response parameters dd = Inr d \<Longrightarrow>
   is_doctype ''WhatsApp Message'' d \<and> \<not> is_doctype ''WhatsApp Notification Log'' d"
  by (auto simp: notify_message_doc_def bind_exn_def is_doctype_def split: sum.splits)

lemma notify_log_doc_doctype [simp]:
  "is_doctype ''WhatsApp Notification Log'' (notify_log_doc self meta)"
  "\<not> is_doctype ''WhatsApp Message'' (notify_log_doc self meta)"
  by (simp_all add: is_doctype_def notify_log_doc_def)

lemma qs_lookup:
  "map_of (map (\<lambda>kv. (fst kv, PList (map PStr (snd kv)))) kvs) k
     = map_option (\<lambda>vs. PList (map PStr vs)) (map_of kvs k)"
  by (induction kvs) auto

lemma message_id_needs_json:
  assumes "\<forall>j. outcome \<noteq> PostJson j" and "returned_value outcome = Inr response"
  shows "\<exists>e. bind_exn (py_item response ''messages'')
           (\<lambda>ms. bind_exn (py_first ms) (\<lambda>m0. bind_exn (py_item m0 ''id'') f)) = Inl e"
proof (cases outcome)
  case (PostRaised e ir)
  with assms show ?thesis by simp
next
  case (PostJson j)
  with assms show ?thesis by simp
next
  case (PostText t)
  with assms show ?thesis by (auto simp: bind_exn_def py_item_def)
next
  case (PostQs kvs)
  with assms have r: "response = PDict (map (\<lambda>kv. (fst kv, PList (map PStr (snd kv)))) kvs)"
    by auto
  show ?thesis
  proof (cases "map_of kvs ''messages''")
    case None
    then show ?thesis
      by (simp add: r bind_exn_def py_item_def dict_item_def qs_lookup)
  next
    case (Some vs)
    then show ?thesis
      by (cases vs) (simp_all add: r bind_exn_def py_item_def dict_item_def qs_lookup py_first_def)
  qed
next
  case PostEmpty
  with assms show ?thesis by (auto simp: bind_exn_def py_item_def)
qed

lemma notify_message_doc_needs_json:
  assumes "\<forall>j. outcome \<noteq> PostJson j" and "returned_value outcome = Inr response"
  shows "\<exists>e. notify_message_doc h self data response parameters dd = Inl e"
proof -
  from message_id_needs_json[OF assms]
  show ?thesis
    unfolding notify_message_doc_def
    by (cases "py_item data ''template''"; cases "py_item data ''to''")
       (auto simp: bind_exn_def)
qed

lemma notify_succeeds_json:
  assumes "notify_succeeds h self data dd"
  shows "\<exists>j. notify_outcome h data = PostJson j"
proof (rule ccontr)
  assume "\<not> (\<exists>j. notify_outcome h data = PostJson j)"
  then have n: "\<forall>j. notify_outcome h data \<noteq> PostJson j" by simp
  from assms obtain response parameters new_doc where
    r: "returned_value (notify_outcome h data) = Inr response"
    and "notify_message_doc h self data response parameters dd = Inr new_doc"
    by (auto simp: notify_succeeds_def split: sum.splits)
  with notify_message_doc_needs_json[OF n r, of h self data parameters dd]
  show False by simp
qed

lemma notify_try_success:
  assumes "notify_succeeds h self data dd"
  shows "\<exists>new_doc. is_doctype ''WhatsApp Message'' new_doc
           \<and> \<not> is_doctype ''WhatsApp Notification Log'' new_doc
           \<and> notify_try h self data dd (notify_outcome h data) w
               = (None, msgprint ''WhatsApp Message Triggered''
                          (write_back h self dd (save_doc new_doc w)))"
  using assms
  by (auto simp: notify_succeeds_def notify_try_def dest: notify_message_doc_doctype
           split: sum.splits)

lemma notify_try_failure:
  assumes "\<not> notify_succeeds h self data dd"
  shows "\<exists>e. notify_try h self data dd (notify_outcome h data) w = (Some e, w)"
  using assms by (auto simp: notify_succeeds_def notify_try_def split: sum.splits)

lemma notify_except_world:
  "documents (snd (snd (notify_except h outcome e w))) = documents w"
  "db_set_values (snd (snd (notify_except h outcome e w))) = db_set_values w"
  "http_posts (snd (snd (notify_except h outcome e w))) = http_posts w"
  by (simp_all add: notify_except_def Let_def split: option.splits sum.splits)

lemma notify_unfold:
  "notify h self data dd w =
     (let outcome = notify_outcome h data;
          w1 = w\<lparr>http_posts := http_posts w @
                 [(settings_url (get_whatsapp_settings h) @ ''/'' @ settings_version (get_whatsapp_settings h)
                     @ ''/'' @ settings_phone_id (get_whatsapp_settings h) @ ''/messages'',
                   PDict [(''authorization'', PStr (''Bearer '' @ settings_token (get_whatsapp_settings h))),
                          (''content-type'', PStr ''application/json'')],
                   PStr (json_dumps h data))]\<rparr>
      in case notify_try h self data dd outcome w1 of
           (None, w2) \<Rightarrow>
             (case integration_request outcome of
                None \<Rightarrow> (Some (no_attribute PNone ''json''), w2)
              | Some js \<Rightarrow>
                  (case js of
                     Inl e \<Rightarrow> (Some e, w2)
                   | Inr meta \<Rightarrow> (None, save_doc (notify_log_doc self meta) w2)))
         | (Some e, w2) \<Rightarrow>
             (case notify_except h outcome e w2 of
                (error_message, raised, w3) \<Rightarrow>
                  (raised,
                   save_doc (notify_log_doc self (PDict [(''error'', error_message)])) w3)))"
  by (simp add: notify_def notify_outcome_def Let_def)

lemma notify_success_world:
  assumes "notify_succeeds h self data dd"
  shows "\<exists>new_doc meta w1. is_doctype ''WhatsApp Message'' new_doc
           \<and> \<not> is_doctype ''WhatsApp Notification Log'' new_doc
           \<and> documents w1 = documents w \<and> db_set_values w1 = db_set_values w
           \<and> notify h self data dd w
               = (None, save_doc (notify_log_doc self meta)
                          (msgprint ''WhatsApp Message Triggered''
                             (write_back h self dd (save_doc new_doc w1))))"
proof -
  let ?w1 = "w\<lparr>http_posts := http_posts w @
                 [(settings_url (get_whatsapp_settings h) @ ''/'' @ settings_version (get_whatsapp_settings h)
                     @ ''/'' @ settings_phone_id (get_whatsapp_settings h) @ ''/messages'',
                   PDict [(''authorization'', PStr (''Bearer '' @ settings_token (get_whatsapp_settings h))),
                          (''content-type'', PStr ''application/json'')],
                   PStr (json_dumps h data))]\<rparr>"
  from notify_succeeds_json[OF assms] obtain j where j: "notify_outcome h data = PostJson j" by blast
  from notify_try_success[OF assms, of ?w1] obtain new_doc where
    d: "is_doctype ''WhatsApp Message'' new_doc" "\<not> is_doctype ''WhatsApp Notification Log'' new_doc"
    and t: "notify_try h self data dd (notify_outcome h data) ?w1
               = (None, msgprint ''WhatsApp Message Triggered''
                          (write_back h self dd (save_doc new_doc ?w1)))"
    by blast
  have "notify h self data dd w
          = (None, save_doc (notify_log_doc self j)
                     (msgprint ''WhatsApp Message Triggered''
                        (write_back h self dd (save_doc new_doc ?w1))))"
    using t j by (simp add: notify_unfold Let_def)
  moreover have "documents ?w1 = documents w" "db_set_values ?w1 = db_set_values w" by simp_all
  ultimately show ?thesis using d by blast
qed

lemma notify_failure_world:
  assumes "\<not> notify_succeeds h self data dd"
  shows "\<exists>meta w3. documents w3 = documents w \<and> db_set_values w3 = db_set_values w
           \<and> snd (notify h self data dd w) = save_doc (notify_log_doc self meta) w3"
proof -
  let ?w1 = "w\<lparr>http_posts := http_posts w @
                 [(settings_url (get_whatsapp_settings h) @ ''/'' @ settings_version (get_whatsapp_settings h)
                     @ ''/'' @ settings_phone_id (get_whatsapp_settings h) @ ''/messages'',
                   PDict [(''authorization'', PStr (''Bearer '' @ settings_token (get_whatsapp_settings h))),
                          (''content-type'', PStr ''application/json'')],
                   PStr (json_dumps h data))]\<rparr>"
  from notify_try_failure[OF assms, of ?w1] obtain e where
    t: "notify_try h self data dd (notify_outcome h data) ?w1 = (Some e, ?w1)" by blast
  obtain em raised w3 where x: "notify_except h (notify_outcome h data) e ?w1 = (em, raised, w3)"
    by (cases "notify_except h (notify_outcome h data) e ?w1") auto
  have "documents w3 = documents w" "db_set_values w3 = db_set_values w"
    using notify_except_world(1,2)[of h "notify_outcome h data" e ?w1] x by simp_all
  moreover have "snd (notify h self data dd w)
          = save_doc (notify_log_doc self (PDict [(''error'', em)])) w3"
    using t x by (simp add: notify_unfold Let_def)
  ultimately show ?thesis by blast
qed

subsection \<open>Dispatch and its records\<close>

lemma notify_evolution_cases:
  assumes cfg: "base_url (get_evolution_settings h (sender_number self)) \<noteq> []
                \<and> instance_name (get_evolution_settings h (sender_number self)) \<noteq> []"
  shows "\<exists>url pl ct mt' s r e w'.
    evolution_request (get_evolution_settings h (sender_number self)) pn mt au fn = (url, pl, ct, mt')
    \<and> evolution_try h self url (evolution_headers (get_evolution_settings h (sender_number self)))
       pn pl ct mt' dd ps w = ((s, r, e), w')
    \<and> notify_evolution h self pn mt au fn t dd ps w
       = (None, save_doc (evolution_log_doc self s r e pn mt') w')
    \<and> evolution_response h self pn mt au fn
       = requests_post h url (evolution_headers (get_evolution_settings h (sender_number self))) pl"
proof -
  let ?S = "get_evolution_settings h (sender_number self)"
  obtain url pl ct mt' where q: "evolution_request ?S pn mt au fn = (url, pl, ct, mt')"
    by (cases "evolution_request ?S pn mt au fn") auto
  obtain s r e w' where t: "evolution_try h self url (evolution_headers ?S) pn pl ct mt' dd ps w = ((s, r, e), w')"
    by (cases "evolution_try h self url (evolution_headers ?S) pn pl ct mt' dd ps w") auto
  have n: "notify_evolution h self pn mt au fn t dd ps w
       = (None, save_doc (evolution_log_doc self s r e pn mt') w')"
    using cfg q t by (simp add: notify_evolution_def Let_def evolution_headers_def)
  have "evolution_response h self pn mt au fn = requests_post h url (evolution_headers ?S) pl"
    using q by (simp add: evolution_response_def Let_def evolution_headers_def)
  with q t n show ?thesis by blast
qed

text \<open>
  The records of a dispatch, in both backends. A call of \<open>notify_evolution\<close> whose gateway
  settings have a base URL and an instance name raises nothing and creates exactly one
  Notification Log entry, whatever the gateway answers; when the answer has status 200 or
  201 and a body from which the message id can be read, it creates exactly one Sent
  Message Record too. A call with a missing base URL or instance name is stopped by the
  guard of lines 226 and 227, before the attempt, and changes nothing. A call of \<open>notify\<close>
  creates exactly one Notification Log entry, and exactly one Sent Message Record when
  its \<open>try\<close> block runs to the end, where line 423 sets \<open>success\<close>. The look-ups of the
  settings before the \<open>try\<close> blocks are host calls and are taken to succeed.
\<close>

lemma one_log_per_dispatch:
  "(base_url (get_evolution_settings h (sender_number self)) \<noteq> []
      \<and> instance_name (get_evolution_settings h (sender_number self)) \<noteq> []
    \<longrightarrow> fst (notify_evolution h self pn mt au fn t dd ps w) = None
        \<and> (\<exists>log. notification_logs (snd (notify_evolution h self pn mt au fn t dd ps w))
                    = notification_logs w @ [log])
        \<and> (evolution_succeeds (evolution_response h self pn mt au fn)
             \<longrightarrow> (\<exists>m. sent_messages (snd (notify_evolution h self pn mt au fn t dd ps w))
                         = sent_messages w @ [m])))
   \<and> (base_url (get_evolution_settings h (sender_number self)) = []
        \<or> instance_name (get_evolution_settings h (sender_number self)) = []
      \<longrightarrow> notify_evolution h self pn mt au fn t dd ps w
            = (Some (ValidationError ''Evolution Phone Settings not configured''), w))
   \<and> (\<exists>log. notification_logs (snd (notify h self data dd w)) = notification_logs w @ [log])
   \<and> (notify_succeeds h self data dd
        \<longrightarrow> (\<exists>m. sent_messages (snd (notify h self data dd w)) = sent_messages w @ [m]))"
proof (intro conjI impI)
  assume c: "base_url (get_evolution_settings h (sender_number self)) \<noteq> []
      \<and> instance_name (get_evolution_settings h (sender_number self)) \<noteq> []"
  from notify_evolution_cases[OF c, of pn mt au fn dd ps w t]
  obtain url pl ct mt' s r e w' where
    t: "evolution_try h self url (evolution_headers (get_evolution_settings h (sender_number self)))
          pn pl ct mt' dd ps w = ((s, r, e), w')"
    and n: "notify_evolution h self pn mt au fn t dd ps w
              = (None, save_doc (evolution_log_doc self s r e pn mt') w')"
    and q: "evolution_response h self pn mt au fn
              = requests_post h url (evolution_headers (get_evolution_settings h (sender_number self))) pl"
    by blast
  show "fst (notify_evolution h self pn mt au fn t dd ps w) = None" using n by simp
  have l: "notification_logs w' = notification_logs w"
    using evolution_try_logs[of h self url "evolution_headers (get_evolution_settings h (sender_number self))" pn pl ct mt' dd ps w] t by simp
  then show "\<exists>log. notification_logs (snd (notify_evolution h self pn mt au fn t dd ps w))
                    = notification_logs w @ [log]"
    using n by simp
  assume "evolution_succeeds (evolution_response h self pn mt au fn)"
  then have "\<exists>m. sent_messages w' = sent_messages w @ [m]"
    using evolution_try_messages[of h self url "evolution_headers (get_evolution_settings h (sender_number self))" pn pl ct mt' dd ps w] t q
    by (auto simp: evolution_succeeds_def split: http_result.splits sum.splits)
  then show "\<exists>m. sent_messages (snd (notify_evolution h self pn mt au fn t dd ps w))
                         = sent_messages w @ [m]"
    using n by simp
next
  assume "base_url (get_evolution_settings h (sender_number self)) = []
        \<or> instance_name (get_evolution_settings h (sender_number self)) = []"
  then show "notify_evolution h self pn mt au fn t dd ps w
            = (Some (ValidationError ''Evolution Phone Settings not configured''), w)"
    by (rule notify_evolution_unconfigured)
next
  show "\<exists>log. notification_logs (snd (notify h self data dd w)) = notification_logs w @ [log]"
  proof (cases "notify_succeeds h self data dd")
    case True
    from notify_success_world[OF True, of w] obtain new_doc meta w1 where
      "\<not> is_doctype ''WhatsApp Notification Log'' new_doc" "documents w1 = documents w"
      "notify h self data dd w
               = (None, save_doc (notify_log_doc self meta)
                          (msgprint ''WhatsApp Message Triggered''
                             (write_back h self dd (save_doc new_doc w1))))"
      by blast
    then show ?thesis by (simp add: notification_logs_def)
  next
    case False
    from notify_failure_world[OF False, of w] obtain meta w3 where
      "documents w3 = documents w" "snd (notify h self data dd w) = save_doc (notify_log_doc self meta) w3"
      by blast
    then show ?thesis by (simp add: notification_logs_def)
  qed
next
  assume s: "notify_succeeds h self data dd"
  from notify_success_world[OF s, of w] obtain new_doc meta w1 where
      "is_doctype ''WhatsApp Message'' new_doc" "documents w1 = documents w"
      "notify h self data dd w
               = (None, save_doc (notify_log_doc self meta)
                          (msgprint ''WhatsApp Message Triggered''
                             (write_back h self dd (save_doc new_doc w1))))"
      by blast
  then show "\<exists>m. sent_messages (snd (notify h self data dd w)) = sent_messages w @ [m]"
    by (simp add: sent_messages_def)
qed

lemmas eval_defs =
  notify_evolution_def evolution_request_def evolution_try_def evolution_except_def
  evolution_message_doc_def evolution_log_doc_def extract_message_id_def
  extract_error_message_def write_back_def save_doc_def msgprint_def opt_str_def
  py_get_def dict_get_def bind_exn_def no_attribute_def quoted_def py_str_def
  example_host_def example_rule_def example_doc_data_def empty_world_def
  sent_messages_def notification_logs_def is_doctype_def meta_field_def
  evolution_response_def evolution_succeeds_def Let_def

lemma example_evolution_succeeds:
  "evolution_succeeds (evolution_response example_host example_rule ''491701234567'' (Some ''Hello'') None None)"
  by (simp add: eval_defs)

lemma example_settings_configured:
  "base_url (get_evolution_settings example_host (sender_number example_rule)) \<noteq> []
   \<and> instance_name (get_evolution_settings example_host (sender_number example_rule)) \<noteq> []"
  by (simp add: example_host_def)

lemmas eval_defs_A =
  notify_def notify_try_def notify_except_def notify_message_doc_def notify_log_doc_def
  template_parameters_def py_item_def py_first_def py_iter_def dict_item_def
  notify_succeeds_def notify_outcome_def example_data_def

lemma example_notify_succeeds: "notify_succeeds example_host example_rule example_data (Some example_doc_data)"
  by (simp add: eval_defs eval_defs_A)

lemma evolution_try_failed_status:
  assumes "requests_post h url hs pl = Response status_code body"
      and "status_code \<noteq> 200" "status_code \<noteq> 201"
  shows "fst (evolution_try h self url hs pn pl ct mt dd ps w) = (False, (case body of Inl e \<Rightarrow> PNone | Inr r \<Rightarrow> r), logged_error body)"
  using assms
  by (simp add: evolution_try_def Let_def logged_error_def handler_message_def
        split: sum.splits)

lemma logged_error_absent:
  "map_of kvs ''response'' = None \<Longrightarrow> logged_error (Inr (PDict kvs)) = PStr ''Unknown Error''"
  by (simp add: logged_error_def extract_error_message_def bind_exn_def py_get_def dict_get_def)

lemma logged_error_present:
  "map_of kvs ''response'' = Some (PDict r) \<Longrightarrow>
   logged_error (Inr (PDict kvs)) = dict_get r ''message'' (PStr ''Unknown Error'')"
  by (simp add: logged_error_def extract_error_message_def bind_exn_def py_get_def dict_get_def)

text \<open>
  Claim C1 at a dispatch of Backend B that the gateway answers with status 200 and the
  body \<open>{"key": null}\<close>. Line 280 has set \<open>success\<close> when line 283 raises on the
  \<open>None\<close> under \<open>key\<close>; the handler of line 342 catches the exception, and the \<open>finally\<close>
  block writes the one Notification Log entry with the success flag set and no error.
  The send has succeeded by the status and by the log, and no Sent Message Record exists.
\<close>

theorem success_flag_without_message:
  "map (meta_field ''success'') (notification_logs (snd (notify_evolution
       (failing_host (Response 200 (Inr (PDict [(''key'', PNone)]))))
       example_rule ''491701234567'' (Some ''Hello'') None None PNone (Some example_doc_data) PNone
       empty_world))) = [PBool True]
   \<and> map (meta_field ''error'') (notification_logs (snd (notify_evolution
       (failing_host (Response 200 (Inr (PDict [(''key'', PNone)]))))
       example_rule ''491701234567'' (Some ''Hello'') None None PNone (Some example_doc_data) PNone
       empty_world))) = [PNone]
   \<and> sent_messages (snd (notify_evolution
       (failing_host (Response 200 (Inr (PDict [(''key'', PNone)]))))
       example_rule ''491701234567'' (Some ''Hello'') None None PNone (Some example_doc_data) PNone
       empty_world)) = []"
  by (simp add: failing_host_def eval_defs)

text \<open>
  Claim C2, as the code has it. When the gateway settings are configured and the response
  has a status other than 200 and 201, no Sent Message Record is created and exactly one
  Notification Log entry is created; its success flag is false and its error field holds
  \<open>logged_error body\<close>. That is \<open>response.message\<close> of the body, or \<open>"Unknown Error"\<close>, when
  the body is an object whose \<open>response\<close> member is absent or an object; otherwise it is
  the message of the exception raised while the body was decoded or read.
\<close>

theorem failed_status_logged:
  assumes cfg: "base_url (get_evolution_settings h (sender_number self)) \<noteq> []
                \<and> instance_name (get_evolution_settings h (sender_number self)) \<noteq> []"
      and resp: "evolution_response h self pn mt au fn = Response status_code body"
      and st: "status_code \<noteq> 200 \<and> status_code \<noteq> 201"
  shows "sent_messages (snd (notify_evolution h self pn mt au fn t dd ps w)) = sent_messages w
       \<and> (\<exists>log. notification_logs (snd (notify_evolution h self pn mt au fn t dd ps w))
                   = notification_logs w @ [log]
                \<and> meta_field ''success'' log = PBool False
                \<and> meta_field ''error'' log = logged_error body)
       \<and> (\<forall>kvs. body = Inr (PDict kvs) \<and> map_of kvs ''response'' = None
             \<longrightarrow> logged_error body = PStr ''Unknown Error'')
       \<and> (\<forall>kvs r. body = Inr (PDict kvs) \<and> map_of kvs ''response'' = Some (PDict r)
             \<longrightarrow> logged_error body = dict_get r ''message'' (PStr ''Unknown Error''))"
proof -
  let ?H = "evolution_headers (get_evolution_settings h (sender_number self))"
  from notify_evolution_cases[OF cfg, of pn mt au fn dd ps w t]
  obtain url pl ct mt' s r e w' where
    t: "evolution_try h self url ?H pn pl ct mt' dd ps w = ((s, r, e), w')"
    and n: "notify_evolution h self pn mt au fn t dd ps w
              = (None, save_doc (evolution_log_doc self s r e pn mt') w')"
    and q: "evolution_response h self pn mt au fn = requests_post h url ?H pl"
    by blast
  from q resp have p: "requests_post h url ?H pl = Response status_code body" by simp
  have f: "s = False" "e = logged_error body"
    using evolution_try_failed_status[OF p, of self pn ct mt' dd ps w] st t by simp_all
  have l: "notification_logs w' = notification_logs w"
    using evolution_try_logs[of h self url ?H pn pl ct mt' dd ps w] t by simp
  have m: "sent_messages w' = sent_messages w"
    using evolution_try_messages[of h self url ?H pn pl ct mt' dd ps w] t p st
    by (simp split: sum.splits)
  show ?thesis using n f l m by (auto simp: logged_error_absent logged_error_present)
qed

theorem failed_status_witness:
  "sent_messages (snd (notify_evolution
       (failing_host (Response 500 (Inr (PDict [(''response'', PDict [(''message'', PStr ''Internal Server Error'')])]))))
       example_rule ''491701234567'' (Some ''Hello'') None None PNone (Some example_doc_data) PNone
       empty_world)) = []
   \<and> map (meta_field ''error'') (notification_logs (snd (notify_evolution
       (failing_host (Response 500 (Inr (PDict [(''response'', PDict [(''message'', PStr ''Internal Server Error'')])]))))
       example_rule ''491701234567'' (Some ''Hello'') None None PNone (Some example_doc_data) PNone
       empty_world))) = [PStr ''Internal Server Error'']"
proof -
  let ?r = "Response 500 (Inr (PDict [(''response'', PDict [(''message'', PStr ''Internal Server Error'')])]))"
  have c: "base_url (get_evolution_settings (failing_host ?r) (sender_number example_rule)) \<noteq> []
           \<and> instance_name (get_evolution_settings (failing_host ?r) (sender_number example_rule)) \<noteq> []"
    by (simp add: failing_host_def example_host_def)
  have r: "evolution_response (failing_host ?r) example_rule ''491701234567'' (Some ''Hello'') None None = ?r"
    by (simp add: failing_host_def eval_defs)
  have s: "(500::nat) \<noteq> 200 \<and> (500::nat) \<noteq> 201" by simp
  have e: "notification_logs empty_world = []" "sent_messages empty_world = []"
    by (simp_all add: notification_logs_def sent_messages_def empty_world_def)
  from failed_status_logged[OF c r s, of PNone "Some example_doc_data" PNone empty_world] e
  show ?thesis by (auto simp: logged_error_present dict_get_def)
qed

text \<open>The claim as it is worded fails for a status 500 whose body has a string under
  \<open>response\<close>, and for a status 502 whose body is not JSON: neither body has a
  \<open>response.message\<close>, and the error field holds the exception's message, not
  \<open>"Unknown Error"\<close>.\<close>

theorem error_field_counterexample:
  "map (meta_field ''error'') (notification_logs (snd (notify_evolution
       (failing_host (Response 500 (Inr (PDict [(''response'', PStr ''Service Unavailable'')]))))
       example_rule ''491701234567'' (Some ''Hello'') None None PNone (Some example_doc_data) PNone
       empty_world))) = [PStr (quoted ''str'' @ '' object has no attribute '' @ quoted ''get'')]
   \<and> map (meta_field ''error'') (notification_logs (snd (notify_evolution
       (failing_host (Response 502 (Inl (RequestException ''Expecting value: line 1 column 1 (char 0)''))))
       example_rule ''491701234567'' (Some ''Hello'') None None PNone (Some example_doc_data) PNone
       empty_world))) = [PStr ''Connection error: Expecting value: line 1 column 1 (char 0)'']"
  by (simp add: failing_host_def eval_defs)

lemma evolution_request_text:
  "\<not> has_attachment au \<Longrightarrow>
   evolution_request S pn mt au fn
     = (base_url S @ ''/message/sendText/'' @ instance_name S,
        PDict [(''number'', PStr pn),
               (''text'', PStr (case mt of None \<Rightarrow> ''No Text'' | Some m \<Rightarrow> m))],
        ''text'', Some (case mt of None \<Rightarrow> ''No Text'' | Some m \<Rightarrow> m))"
  by (auto simp: evolution_request_def has_attachment_def opt_str_def Let_def split: option.splits)

lemma evolution_request_document:
  "has_attachment au \<Longrightarrow> is_pdf fn \<Longrightarrow>
   evolution_request S pn mt au fn
     = (base_url S @ ''/message/sendMedia/'' @ instance_name S,
        PDict [(''number'', PStr pn), (''mediatype'', PStr ''document''),
               (''mimetype'', PStr ''application/pdf''), (''caption'', opt_str mt),
               (''media'', opt_str au), (''fileName'', opt_str fn)],
        ''document'', mt)"
  by (auto simp: evolution_request_def has_attachment_def is_pdf_def opt_str_def str_lower_def
           split: option.splits)

lemma evolution_request_image:
  "has_attachment au \<Longrightarrow> \<not> is_pdf fn \<Longrightarrow>
   evolution_request S pn mt au fn
     = (base_url S @ ''/message/sendMedia/'' @ instance_name S,
        PDict [(''number'', PStr pn), (''mediatype'', PStr ''image''),
               (''caption'', opt_str mt), (''media'', opt_str au)],
        ''image'', mt)"
  by (auto simp: evolution_request_def has_attachment_def is_pdf_def opt_str_def str_lower_def
           split: option.splits)

lemma notify_evolution_posts:
  assumes cfg: "base_url (get_evolution_settings h (sender_number self)) \<noteq> []
                \<and> instance_name (get_evolution_settings h (sender_number self)) \<noteq> []"
  shows "http_posts (snd (notify_evolution h self pn mt au fn t dd ps w))
           = http_posts w @
               [(fst (evolution_request (get_evolution_settings h (sender_number self)) pn mt au fn),
                 evolution_headers (get_evolution_settings h (sender_number self)),
                 fst (snd (evolution_request (get_evolution_settings h (sender_number self)) pn mt au fn)))]"
proof -
  let ?H = "evolution_headers (get_evolution_settings h (sender_number self))"
  from notify_evolution_cases[OF cfg, of pn mt au fn dd ps w t]
  obtain url pl ct mt' s r e w' where
    rq: "evolution_request (get_evolution_settings h (sender_number self)) pn mt au fn = (url, pl, ct, mt')"
    and t: "evolution_try h self url ?H pn pl ct mt' dd ps w = ((s, r, e), w')"
    and n: "notify_evolution h self pn mt au fn t dd ps w
              = (None, save_doc (evolution_log_doc self s r e pn mt') w')"
    by blast
  have "http_posts w' = http_posts w @ [(url, ?H, pl)]"
    using evolution_try_posts[of h self url ?H pn pl ct mt' dd ps w] t by simp
  then show ?thesis using n rq by simp
qed

text \<open>
  Claim C6, as the code has it. With the gateway settings configured, the one request of a
  dispatch goes
  \<^item> without an attachment to \<open>{base}/message/sendText/{instance}\<close> with the payload
    \<open>{number, text}\<close>;
  \<^item> with an attachment whose file name ends in \<open>.pdf\<close>, in any letter case, to
    \<open>{base}/message/sendMedia/{instance}\<close> with the payload \<open>{number, mediatype: "document",
    mimetype: "application/pdf", caption, media, fileName}\<close>;
  \<^item> with any other attachment to the same \<open>sendMedia\<close> URL with the payload \<open>{number,
    mediatype: "image", caption, media}\<close>.
  The text URL differs from the media URL; the document and the image requests share
  theirs and differ in the payload only.
\<close>

theorem evolution_endpoint_selection:
  assumes cfg: "base_url (get_evolution_settings h (sender_number self)) \<noteq> []
                \<and> instance_name (get_evolution_settings h (sender_number self)) \<noteq> []"
  shows "(\<not> has_attachment au \<longrightarrow>
            http_posts (snd (notify_evolution h self pn mt au fn t dd ps w))
              = http_posts w @
                  [(base_url (get_evolution_settings h (sender_number self)) @ ''/message/sendText/''
                      @ instance_name (get_evolution_settings h (sender_number self)),
                    evolution_headers (get_evolution_settings h (sender_number self)),
                    PDict [(''number'', PStr pn),
                           (''text'', PStr (case mt of None \<Rightarrow> ''No Text'' | Some m \<Rightarrow> m))])])
       \<and> (has_attachment au \<and> is_pdf fn \<longrightarrow>
            http_posts (snd (notify_evolution h self pn mt au fn t dd ps w))
              = http_posts w @
                  [(base_url (get_evolution_settings h (sender_number self)) @ ''/message/sendMedia/''
                      @ instance_name (get_evolution_settings h (sender_number self)),
                    evolution_headers (get_evolution_settings h (sender_number self)),
                    PDict [(''number'', PStr pn), (''mediatype'', PStr ''document''),
                           (''mimetype'', PStr ''application/pdf''), (''caption'', opt_str mt),
                           (''media'', opt_str au), (''fileName'', opt_str fn)])])
       \<and> (has_attachment au \<and> \<not> is_pdf fn \<longrightarrow>
            http_posts (snd (notify_evolution h self pn mt au fn t dd ps w))
              = http_posts w @
                  [(base_url (get_evolution_settings h (sender_number self)) @ ''/message/sendMedia/''
                      @ instance_name (get_evolution_settings h (sender_number self)),
                    evolution_headers (get_evolution_settings h (sender_number self)),
                    PDict [(''number'', PStr pn), (''mediatype'', PStr ''image''),
                           (''caption'', opt_str mt), (''media'', opt_str au)])])
       \<and> base_url (get_evolution_settings h (sender_number self)) @ ''/message/sendText/''
             @ instance_name (get_evolution_settings h (sender_number self))
           \<noteq> base_url (get_evolution_settings h (sender_number self)) @ ''/message/sendMedia/''
             @ instance_name (get_evolution_settings h (sender_number self))"
  by (simp add: notify_evolution_posts[OF cfg] evolution_request_text evolution_request_document
        evolution_request_image)

theorem evolution_endpoint_witness:
  "map fst (http_posts (snd (notify_evolution example_host example_rule ''491701234567''
       (Some ''Hello'') None None PNone None PNone empty_world)))
     = [''http://evo/message/sendText/main'']
   \<and> map fst (http_posts (snd (notify_evolution example_host example_rule ''491701234567''
       (Some ''Hello'') (Some ''JVBERi0='') (Some ''Invoice.PDF'') PNone None PNone empty_world)))
     = [''http://evo/message/sendMedia/main'']
   \<and> map fst (http_posts (snd (notify_evolution example_host example_rule ''491701234567''
       (Some ''Hello'') (Some ''http://site/logo.png'') (Some ''logo.png'') PNone None PNone
       empty_world)))
     = [''http://evo/message/sendMedia/main'']"
proof -
  have a: "\<not> has_attachment None" "has_attachment (Some ''JVBERi0='')"
    "has_attachment (Some ''http://site/logo.png'')"
    by (simp_all add: has_attachment_def)
  have p: "is_pdf (Some ''Invoice.PDF'')" "\<not> is_pdf (Some ''logo.png'')"
    by (simp_all add: is_pdf_def str_lower_def lower_chr_def suffix_def)
  have w: "http_posts empty_world = []" by (simp add: empty_world_def)
  have s: "base_url (get_evolution_settings example_host (sender_number example_rule)) = ''http://evo''"
    "instance_name (get_evolution_settings example_host (sender_number example_rule)) = ''main''"
    by (simp_all add: example_host_def)
  note t = evolution_endpoint_selection[OF example_settings_configured, where w = empty_world and pn = "''491701234567''"
             and mt = "Some ''Hello''" and t = PNone and dd = None and ps = PNone]
  from t[of None None] t[of "Some ''JVBERi0=''" "Some ''Invoice.PDF''"]
       t[of "Some ''http://site/logo.png''" "Some ''logo.png''"] a p w s
  show ?thesis by simp
qed

text \<open>The claim as it is worded fails: a PDF and an image are posted to one and the same
  URL, and a file name in capitals, which does not end in \<open>.pdf\<close>, is sent as a
  document.\<close>

theorem media_endpoints_counterexample:
  "map fst (http_posts (snd (notify_evolution example_host example_rule ''491701234567''
       (Some ''Hello'') (Some ''JVBERi0='') (Some ''invoice.pdf'') PNone None PNone empty_world)))
     = map fst (http_posts (snd (notify_evolution example_host example_rule ''491701234567''
       (Some ''Hello'') (Some ''http://site/logo.png'') (Some ''logo.png'') PNone None PNone
       empty_world)))
   \<and> \<not> suffix ''.pdf'' ''REPORT.PDF''
   \<and> map (\<lambda>p. snd (snd p)) (http_posts (snd (notify_evolution example_host example_rule
       ''491701234567'' (Some ''Hello'') (Some ''JVBERi0='') (Some ''REPORT.PDF'') PNone None PNone
       empty_world)))
     = [PDict [(''number'', PStr ''491701234567''), (''mediatype'', PStr ''document''),
               (''mimetype'', PStr ''application/pdf''), (''caption'', PStr ''Hello''),
               (''media'', PStr ''JVBERi0=''), (''fileName'', PStr ''REPORT.PDF'')]]"
  by (simp add: eval_defs str_lower_def lower_chr_def suffix_def)

text \<open>
  Claim C7. When a write-back is configured (field and value set, the triggering record
  has a type and a name) and its target is a field of a numeric type on the schema of the
  triggering record, a successful send of either backend writes exactly one value directly
  to storage: the configured value coerced with \<open>cint\<close>, an integer.
\<close>

theorem numeric_write_back_coerced:
  assumes nwb: "numeric_write_back h self dd"
  shows "(base_url (get_evolution_settings h (sender_number self)) \<noteq> []
            \<and> instance_name (get_evolution_settings h (sender_number self)) \<noteq> []
            \<and> evolution_succeeds (evolution_response h self pn mt au fn)
          \<longrightarrow> db_set_values (snd (notify_evolution h self pn mt au fn t (Some dd) ps w))
                = db_set_values w @
                    [(dict_get dd ''doctype'' PNone, dict_get dd ''name'' PNone,
                      set_property_after_alert self, PInt (cint h (property_value self)))])
       \<and> (notify_succeeds h self data (Some dd)
          \<longrightarrow> db_set_values (snd (notify h self data (Some dd) w))
                = db_set_values w @
                    [(dict_get dd ''doctype'' PNone, dict_get dd ''name'' PNone,
                      set_property_after_alert self, PInt (cint h (property_value self)))])"
proof (intro conjI impI)
  let ?H = "evolution_headers (get_evolution_settings h (sender_number self))"
  assume a: "base_url (get_evolution_settings h (sender_number self)) \<noteq> []
            \<and> instance_name (get_evolution_settings h (sender_number self)) \<noteq> []
            \<and> evolution_succeeds (evolution_response h self pn mt au fn)"
  then have cfg: "base_url (get_evolution_settings h (sender_number self)) \<noteq> []
            \<and> instance_name (get_evolution_settings h (sender_number self)) \<noteq> []" by simp
  from notify_evolution_cases[OF cfg, of pn mt au fn "Some dd" ps w t]
  obtain url pl ct mt' s r e w' where
    t: "evolution_try h self url ?H pn pl ct mt' (Some dd) ps w = ((s, r, e), w')"
    and n: "notify_evolution h self pn mt au fn t (Some dd) ps w
              = (None, save_doc (evolution_log_doc self s r e pn mt') w')"
    and q: "evolution_response h self pn mt au fn = requests_post h url ?H pl"
    by blast
  have "db_set_values w' = db_set_values (write_back h self (Some dd) w)"
    using evolution_try_writes[of h self url ?H pn pl ct mt' "Some dd" ps w] t q a by simp
  then show "db_set_values (snd (notify_evolution h self pn mt au fn t (Some dd) ps w))
                = db_set_values w @
                    [(dict_get dd ''doctype'' PNone, dict_get dd ''name'' PNone,
                      set_property_after_alert self, PInt (cint h (property_value self)))]"
    using n write_back_numeric[OF nwb, of w] by simp
next
  assume s: "notify_succeeds h self data (Some dd)"
  from notify_success_world[OF s, of w] obtain new_doc meta w1 where
      w1: "db_set_values w1 = db_set_values w"
      and n: "notify h self data (Some dd) w
               = (None, save_doc (notify_log_doc self meta)
                          (msgprint ''WhatsApp Message Triggered''
                             (write_back h self (Some dd) (save_doc new_doc w1))))"
      by blast
  have "db_set_values (save_doc new_doc w1) = db_set_values w" using w1 by simp
  then have "db_set_values (write_back h self (Some dd) (save_doc new_doc w1))
               = db_set_values (write_back h self (Some dd) w)"
    by (rule write_back_depends)
  then show "db_set_values (snd (notify h self data (Some dd) w))
                = db_set_values w @
                    [(dict_get dd ''doctype'' PNone, dict_get dd ''name'' PNone,
                      set_property_after_alert self, PInt (cint h (property_value self)))]"
    using n write_back_numeric[OF nwb, of w] by simp
qed

lemma example_cint_5: "example_cint ''5'' = 5"
  by (simp add: example_cint_def is_digit_def)

text \<open>With a coercion that reads decimal numerals, the configured string \<open>"5"\<close> is stored as
  the integer 5.\<close>

theorem numeric_write_back_witness:
  "db_set_values (snd (notify_evolution example_host example_rule ''491701234567'' (Some ''Hello'')
       None None PNone (Some example_doc_data) PNone empty_world))
     = [(PStr ''Invoice'', PStr ''INV-1'', ''reminded'', PInt 5)]
   \<and> db_set_values (snd (notify example_host example_rule example_data (Some example_doc_data)
       empty_world))
     = [(PStr ''Invoice'', PStr ''INV-1'', ''reminded'', PInt 5)]"
proof -
  have n: "numeric_write_back example_host example_rule example_doc_data"
    by (simp add: numeric_write_back_def example_host_def example_rule_def example_doc_data_def
          dict_get_def)
  have v: "dict_get example_doc_data ''doctype'' PNone = PStr ''Invoice''"
    "dict_get example_doc_data ''name'' PNone = PStr ''INV-1''"
    "set_property_after_alert example_rule = ''reminded''"
    "cint example_host (property_value example_rule) = 5"
    "db_set_values empty_world = []"
    by (simp_all add: example_doc_data_def dict_get_def example_rule_def example_host_def
          example_cint_5 empty_world_def)
  from numeric_write_back_coerced[OF n, where pn = "''491701234567''" and mt = "Some ''Hello''"
         and au = None and fn = None and t = PNone and ps = PNone and w = empty_world
         and data = example_data]
       example_settings_configured example_evolution_succeeds example_notify_succeeds v
  show ?thesis by simp
qed

subsection \<open>The send pipeline\<close>

text \<open>
  Claim C5. When the rule has a condition, the condition is not overridden and it
  evaluates to a false value, \<open>send_template_message\<close> returns without an exception and
  without a dispatch: no Sent Message Record, no Notification Log entry, no other
  document, no write-back, no HTTP request and no user message is produced.
\<close>

theorem false_condition_sends_nothing:
  assumes "condition self \<noteq> []" and "\<not> ignore_condition"
      and "safe_eval h (condition self) (doc_dict doc) = Inr v" and "\<not> truthy v"
  shows "fst (send_template_message h self doc phone_no default_template ignore_condition w) = None
       \<and> sent_messages (snd (send_template_message h self doc phone_no default_template ignore_condition w))
           = sent_messages w
       \<and> notification_logs (snd (send_template_message h self doc phone_no default_template ignore_condition w))
           = notification_logs w
       \<and> documents (snd (send_template_message h self doc phone_no default_template ignore_condition w))
           = documents w
       \<and> db_set_values (snd (send_template_message h self doc phone_no default_template ignore_condition w))
           = db_set_values w
       \<and> http_posts (snd (send_template_message h self doc phone_no default_template ignore_condition w))
           = http_posts w
       \<and> msgprints (snd (send_template_message h self doc phone_no default_template ignore_condition w))
           = msgprints w"
  using assms
  by (simp add: send_template_message_def check_condition_def Let_def sent_messages_def
        notification_logs_def)

theorem false_condition_witness:
  "fst (send_template_message example_host example_rule example_doc None PNone False empty_world) = None
   \<and> documents (snd (send_template_message example_host example_rule example_doc None PNone False
        empty_world)) = []
   \<and> db_set_values (snd (send_template_message example_host example_rule example_doc None PNone False
        empty_world)) = []
   \<and> http_posts (snd (send_template_message example_host example_rule example_doc None PNone False
        empty_world)) = []"
proof -
  have c: "condition example_rule \<noteq> []" by (simp add: example_rule_def)
  have e: "safe_eval example_host (condition example_rule) (doc_dict example_doc) = Inr (PBool False)"
    by (simp add: example_host_def)
  have f: "\<not> truthy (PBool False)" "\<not> False" by simp_all
  have w: "documents empty_world = []" "db_set_values empty_world = []" "http_posts empty_world = []"
    by (simp_all add: empty_world_def)
  from false_condition_sends_nothing[OF c f(2) e f(1), of None PNone empty_world] w
  show ?thesis by simp
qed

text \<open>
  Claim C10. On a rule whose \<open>disabled\<close> flag is set, \<open>send_template_message\<close> returns at
  once and leaves the whole world as it was: no condition is evaluated, no HTTP request
  is made, and no Sent Message Record, Notification Log entry or write-back is produced.
\<close>

theorem disabled_rule_does_nothing:
  "disabled self \<Longrightarrow>
   send_template_message h self doc phone_no default_template ignore_condition w = (None, w)"
  by (simp add: send_template_message_def)

theorem disabled_rule_witness:
  "disabled (example_rule\<lparr>disabled := True\<rparr>)
   \<and> send_template_message example_host (example_rule\<lparr>disabled := True\<rparr>) example_doc None PNone
       False empty_world = (None, empty_world)"
proof -
  have d: "disabled (example_rule\<lparr>disabled := True\<rparr>)" by simp
  from disabled_rule_does_nothing[OF d, of example_host example_doc None PNone False empty_world] d
  show ?thesis by simp
qed

subsection \<open>The scheduler window\<close>

text \<open>
  The window is the target day, today plus the offset (minus the offset for
  \<open>"Days After"\<close>), from 00:00:00.000000 to 23:59:59.000000. A record with a Date value is
  in it exactly when that date is the target day; a record with a Datetime value exactly
  when the day is the target day and the time is no later than 23:59:59.000000.
\<close>

lemma reference_window_target:
  "reference_window self today =
     ((today + (if doctype_event self = ''Days After'' then - days_in_advance self
                else days_in_advance self), 0),
      (today + (if doctype_event self = ''Days After'' then - days_in_advance self
                else days_in_advance self), 86399000000))"
  by (simp add: reference_window_def Let_def)

lemma in_window_date:
  "map_of (doc_dict doc) field = Some (PDate d) \<Longrightarrow>
   in_window field (reference_window self today) doc
     = (d = today + (if doctype_event self = ''Days After'' then - days_in_advance self
                     else days_in_advance self))"
  by (auto simp: in_window_def reference_window_target as_timestamp_def ts_le_def)

lemma in_window_datetime:
  "map_of (doc_dict doc) field = Some (PDatetime d u) \<Longrightarrow>
   in_window field (reference_window self today) doc
     = (d = today + (if doctype_event self = ''Days After'' then - days_in_advance self
                     else days_in_advance self) \<and> u \<le> 86399000000)"
  by (auto simp: in_window_def reference_window_target as_timestamp_def ts_le_def)

text \<open>
  Claim C3 at a record whose date field falls on today+3, in the last second of that day:
  with today = day 100 and the rule "Days Before" = 3 on \<open>due_date\<close>, the window ends at
  23:59:59.000000 of day 103, and of the two records of day 103 only the one with the Date
  value is selected; the one at 23:59:59.500000 is not.
\<close>

theorem last_second_record_excluded:
  "reference_window example_rule (nowdate example_host) = ((103, 0), (103, 86399000000))
   \<and> map_of (doc_dict late_doc) (date_changed example_rule) = Some (PDatetime 103 86399500000)
   \<and> doc_list (example_host\<lparr>get_all_docs := (\<lambda>dt. [example_doc, late_doc])\<rparr>) example_rule
       = [example_doc]"
  by (simp add: doc_list_def reference_window_target in_window_def as_timestamp_def ts_le_def
        example_rule_def example_host_def late_doc_def example_doc_def example_doc_data_def)

end
